theory Spec2Isabelle
  imports Main
begin

section \<open>Python strings\<close>

text \<open>
  A Python \<open>str\<close> is modelled as an Isabelle \<open>string\<close>; a \<open>char\<close> stands for the
  code point of the same number, so the model covers the code points below 256. The
  methods below are the ones the repository calls on endpoint URLs and message bodies.
\<close>

text \<open>
  \<open>str.isspace\<close> on one character. Below 256 the whitespace code points of CPython are
  9 to 13, 28 to 32, 133 and 160.
\<close>

definition isspace :: "char \<Rightarrow> bool" where
  "isspace c = (let n = (of_char c :: nat) in
     (9 \<le> n \<and> n \<le> 13) \<or> (28 \<le> n \<and> n \<le> 32) \<or> n = 133 \<or> n = 160)"

text \<open>\<open>s.lstrip()\<close>, \<open>s.rstrip()\<close> and \<open>s.strip()\<close> with no argument.\<close>

definition lstrip :: "string \<Rightarrow> string" where
  "lstrip s = dropWhile isspace s"

definition rstrip :: "string \<Rightarrow> string" where
  "rstrip s = rev (dropWhile isspace (rev s))"

definition strip :: "string \<Rightarrow> string" where
  "strip s = rstrip (lstrip s)"

text \<open>\<open>s.startswith(p)\<close>.\<close>

fun startswith :: "string \<Rightarrow> string \<Rightarrow> bool" where
  "startswith s [] = True"
| "startswith [] (p # ps) = False"
| "startswith (c # cs) (p # ps) = (c = p \<and> startswith cs ps)"

text \<open>
  \<open>s.replace(old, new)\<close>: the occurrences of \<open>old\<close> are found from the left and do not
  overlap; the scan goes on behind each occurrence it has replaced. For an empty \<open>old\<close>
  Python puts \<open>new\<close> before every character and at the end.
\<close>

function replace :: "string \<Rightarrow> string \<Rightarrow> string \<Rightarrow> string" where
  "replace [] old new = (if old = [] then new else [])"
| "replace (c # cs) old new =
     (if old = [] then new @ c # replace cs old new
      else if startswith (c # cs) old
        then new @ replace (drop (length old) (c # cs)) old new
        else c # replace cs old new)"
  by pat_completeness auto
termination
  by (relation "measure (\<lambda>(s, old, new). length s)") (auto simp: neq_Nil_conv)

text \<open>\<open>sub in s\<close> and \<open>sep.join(parts)\<close>, used to state what \<open>replace\<close> removes.\<close>

fun contains :: "string \<Rightarrow> string \<Rightarrow> bool" where
  "contains [] sub = (sub = [])"
| "contains (c # cs) sub = (startswith (c # cs) sub \<or> contains cs sub)"

fun join :: "string \<Rightarrow> string list \<Rightarrow> string" where
  "join sep [] = []"
| "join sep [p] = p"
| "join sep (p # q # ps) = p @ sep @ join sep (q # ps)"

section \<open>Exceptions\<close>

text \<open>
  The exception classes that occur, with Python's built-in hierarchy: \<open>exc_mro\<close> lists
  a class and its bases. \<open>CancelledError\<close> derives from \<open>BaseException\<close> only, so an
  \<open>except Exception\<close> clause does not catch it.
\<close>

datatype exc_class =
  BaseException | Exception | ValueError | TypeError | AttributeError | RuntimeError
  | OSError | ConnectionError | CancelledError

fun exc_mro :: "exc_class \<Rightarrow> exc_class list" where
  "exc_mro BaseException = [BaseException]"
| "exc_mro Exception = [Exception, BaseException]"
| "exc_mro ValueError = [ValueError, Exception, BaseException]"
| "exc_mro TypeError = [TypeError, Exception, BaseException]"
| "exc_mro AttributeError = [AttributeError, Exception, BaseException]"
| "exc_mro RuntimeError = [RuntimeError, Exception, BaseException]"
| "exc_mro OSError = [OSError, Exception, BaseException]"
| "exc_mro ConnectionError = [ConnectionError, OSError, Exception, BaseException]"
| "exc_mro CancelledError = [CancelledError, BaseException]"

definition issubclass :: "exc_class \<Rightarrow> exc_class \<Rightarrow> bool" where
  "issubclass c d = (d \<in> set (exc_mro c))"

text \<open>An exception object: its class and its message (\<open>str(e)\<close>).\<close>

datatype exc = Exc (exc_type: exc_class) (exc_msg: string)

definition isinstance :: "exc \<Rightarrow> exc_class \<Rightarrow> bool" where
  "isinstance e d = issubclass (exc_type e) d"

section \<open>Objects of the running process\<close>

text \<open>
  A persona class: the base class \<open>RemoteAcpPersona\<close>, or a subclass given by its name
  and its base (single inheritance, as in the repository).
\<close>

datatype cls = RemoteAcpPersona | Subclass string cls

fun cls_name :: "cls \<Rightarrow> string" where
  "cls_name RemoteAcpPersona = ''RemoteAcpPersona''"
| "cls_name (Subclass n b) = n"

definition ExampleRemotePersona :: cls where
  "ExampleRemotePersona = Subclass ''ExampleRemotePersona'' RemoteAcpPersona"

text \<open>
  Values a task can return: a client, a connection and a session are references
  (a client and its connection by the client's index, a session by its ID).
\<close>

datatype pyval = PyNone | ClientRef nat | ConnRef nat | Session string | Str string

datatype outcome = Returned pyval | Raised exc

text \<open>
  The coroutines the repository hands to \<open>event_loop.create_task\<close>, each with its
  \<open>self\<close>: a persona index for \<open>_init_client\<close>, \<open>_init_client_session\<close> and
  \<open>_shutdown\<close>, a client index for \<open>_init_connection\<close>.
\<close>

datatype coro = InitClient nat | InitClientSession nat | InitConnection nat | ShutdownCoro nat

text \<open>A task of the event loop; \<open>result\<close> is \<open>None\<close> while the task is pending.\<close>

record task =
  coro :: coro
  result :: "outcome option"

text \<open>
  A \<open>RemoteAcpClient\<close>. \<open>connection_context\<close> tells whether \<open>_connection_context\<close> is
  set (it is \<open>None\<close> until \<open>_init_connection\<close> starts); \<open>aexit_calls\<close> counts the
  calls of \<open>__aexit__\<close> on that context, which close the transport.
\<close>

record client =
  c_remote_url :: string
  connection_context :: bool
  aexit_calls :: nat
  connection_future :: nat

text \<open>
  A persona instance. \<open>mention_name\<close> is \<open>self.as_user().mention_name\<close>, which the host
  framework supplies.
\<close>

record persona =
  p_class :: cls
  p_remote_url :: string
  mention_name :: string
  client_session_future :: nat
  acp_slash_commands :: "string list"

text \<open>
  The log lines of the two modules, by what they report. The lines written with
  \<open>error\<close> are \<open>CleanupError\<close>, \<open>ConnectFailed\<close> and \<open>CloseError\<close>.
\<close>

datatype log_entry =
  ClientInitialized string string
  | SessionInitialized string string
  | SettingSlashCommands nat
  | ClosingClient string
  | CleanupError exc
  | CompletedClosing string
  | Connecting string
  | Connected string
  | ConnectFailed string exc
  | ClosedConnection string
  | CloseError exc

fun is_error :: "log_entry \<Rightarrow> bool" where
  "is_error (CleanupError e) = True"
| "is_error (ConnectFailed u e) = True"
| "is_error (CloseError e) = True"
| "is_error l = False"

text \<open>
  The process: for every class whether \<open>_client_future\<close> is a key of its \<open>__dict__\<close>
  (\<open>None\<close> when it is not) and its value there (\<open>Some None\<close> for Python's \<open>None\<close>, else
  the task); the tasks of the event loop in the order of their creation, a task's index
  being its identity; the clients and personas constructed so far; the log.
\<close>

record world =
  class_dict :: "cls \<Rightarrow> nat option option"
  tasks :: "task list"
  clients :: "client list"
  personas :: "persona list"
  log :: "log_entry list"

text \<open>
  At start only the body of \<open>RemoteAcpPersona\<close> has run: \<open>_client_future = None\<close>
  there, and no subclass has the attribute of its own.
\<close>

definition world0 :: world where
  "world0 = \<lparr>class_dict = (\<lambda>c. if c = RemoteAcpPersona then Some None else None),
     tasks = [], clients = [], personas = [], log = []\<rparr>"

text \<open>
  What the outside world answers when a task runs: the outcome of opening the transport
  and of the \<open>initialize\<close> handshake, of \<open>create_session\<close> (an exception or the new
  session ID), of \<open>conn.close()\<close> and of the context's \<open>__aexit__\<close>.
\<close>

record env =
  handshake :: "exc option"
  new_session :: "exc + string"
  conn_close :: "exc option"
  aexit :: "exc option"

section \<open>The event loop\<close>

definition create_task :: "coro \<Rightarrow> world \<Rightarrow> nat \<times> world" where
  "create_task c w = (length (tasks w), w\<lparr>tasks := tasks w @ [\<lparr>coro = c, result = None\<rparr>]\<rparr>)"

definition set_result :: "nat \<Rightarrow> outcome \<Rightarrow> world \<Rightarrow> world" where
  "set_result t r w = w\<lparr>tasks := (tasks w)[t := (tasks w ! t)\<lparr>result := Some r\<rparr>]\<rparr>"

definition add_log :: "log_entry \<Rightarrow> world \<Rightarrow> world" where
  "add_log l w = w\<lparr>log := log w @ [l]\<rparr>"

text \<open>
  \<open>await\<close> on a task: its outcome once it is done, \<open>None\<close> while the awaiting coroutine
  stays suspended.
\<close>

definition await :: "world \<Rightarrow> nat \<Rightarrow> outcome option" where
  "await w t = (if t < length (tasks w) then result (tasks w ! t) else None)"

section \<open>remote_acp_client.py\<close>

text \<open>
  \<open>RemoteAcpClient.__init__\<close>: the two checks of the URL, then the fields and the
  connection task. An exception leaves the process as it was. The constructors of the
  library classes it calls (\<open>TerminalManager\<close>, \<open>Client\<close>) are taken to succeed.
  \<open>create_task\<close> only schedules the coroutine: it first runs when the loop runs the
  task.
\<close>

definition RemoteAcpClient_init :: "string \<Rightarrow> world \<Rightarrow> (exc + nat) \<times> world" where
  "RemoteAcpClient_init remote_url w =
     (if remote_url = [] \<or> strip remote_url = []
        then (Inl (Exc ValueError ''remote_url cannot be empty''), w)
      else if \<not> (startswith remote_url ''ws://'' \<or> startswith remote_url ''wss://'')
        then (Inl (Exc ValueError ''remote_url must start with ws:// or wss://''), w)
      else
        (let self = length (clients w);
             (t, w1) = create_task (InitConnection self) w
         in (Inr self,
             w1\<lparr>clients := clients w1 @
               [\<lparr>c_remote_url = remote_url, connection_context = False, aexit_calls = 0,
                 connection_future = t\<rparr>]\<rparr>)))"

text \<open>
  \<open>RemoteAcpClient._init_connection\<close>. Its first run sets \<open>_connection_context\<close>
  (the call \<open>connect_http_agent(self, url)\<close> that makes the context is taken to
  succeed) and suspends in \<open>__aenter__\<close>; it ends with the outcome \<open>hs\<close> of opening
  the transport and the handshake. \<open>except Exception\<close> logs and raises again.
\<close>

definition init_connection :: "nat \<Rightarrow> exc option \<Rightarrow> world \<Rightarrow> outcome option \<times> world" where
  "init_connection self hs w =
     (let c = clients w ! self in
      if \<not> connection_context c
        then (None, add_log (Connecting (c_remote_url c))
                (w\<lparr>clients := (clients w)[self := c\<lparr>connection_context := True\<rparr>]\<rparr>))
      else (case hs of
          None \<Rightarrow> (Some (Returned (ConnRef self)), add_log (Connected (c_remote_url c)) w)
        | Some e \<Rightarrow>
            (if isinstance e Exception
               then (Some (Raised e), add_log (ConnectFailed (c_remote_url c) e) w)
               else (Some (Raised e), w))))"

text \<open>
  \<open>RemoteAcpClient.close\<close>, with the outcome \<open>ax\<close> of \<open>__aexit__\<close>. It returns at once
  when \<open>_connection_context\<close> is not set; otherwise it awaits the connection task
  (the result \<open>None\<close>: suspended there, nothing done yet) and then leaves the context.
\<close>

definition RemoteAcpClient_close :: "nat \<Rightarrow> exc option \<Rightarrow> world \<Rightarrow> outcome option \<times> world" where
  "RemoteAcpClient_close self ax w =
     (let c = clients w ! self in
      if \<not> connection_context c then (Some (Returned PyNone), w)
      else (case await w (connection_future c) of
          None \<Rightarrow> (None, w)
        | Some (Raised e) \<Rightarrow>
            (if isinstance e Exception
               then (Some (Returned PyNone), add_log (CloseError e) w)
               else (Some (Raised e), w))
        | Some (Returned conn) \<Rightarrow>
            (let w1 = w\<lparr>clients := (clients w)[self := c\<lparr>aexit_calls := aexit_calls c + 1\<rparr>]\<rparr>
             in (case ax of
                 None \<Rightarrow> (Some (Returned PyNone), add_log (ClosedConnection (c_remote_url c)) w1)
               | Some e \<Rightarrow>
                   (if isinstance e Exception
                      then (Some (Returned PyNone), add_log (CloseError e) w1)
                      else (Some (Raised e), w1))))))"

section \<open>remote_acp_persona.py\<close>

text \<open>
  The class attribute \<open>cls._client_future\<close>: the class's own \<open>__dict__\<close> first, then
  its bases. \<open>None\<close> stands for \<open>AttributeError\<close>.
\<close>

fun class_getattr :: "(cls \<Rightarrow> nat option option) \<Rightarrow> cls \<Rightarrow> nat option option" where
  "class_getattr d RemoteAcpPersona = d RemoteAcpPersona"
| "class_getattr d (Subclass n b) =
     (case d (Subclass n b) of Some v \<Rightarrow> Some v | None \<Rightarrow> class_getattr d b)"

text \<open>
  \<open>RemoteAcpPersona.__init__\<close> for an instance of class \<open>c\<close>: the client task is created
  when \<open>_client_future\<close> is not in the \<open>__dict__\<close> of \<open>c\<close> itself or is \<open>None\<close>, and
  stored on \<open>c\<close>; the session task is created always. The constructor has no
  suspension point, so it is one step of the process.
\<close>

definition RemoteAcpPersona_init :: "cls \<Rightarrow> string \<Rightarrow> string \<Rightarrow> world \<Rightarrow> world" where
  "RemoteAcpPersona_init c remote_url mention w =
     (let self = length (personas w);
          w1 = (if class_dict w c = None \<or> class_getattr (class_dict w) c = Some None
                then (let (t, w') = create_task (InitClient self) w
                      in w'\<lparr>class_dict := (class_dict w')(c := Some (Some t))\<rparr>)
                else w);
          (t2, w2) = create_task (InitClientSession self) w1
      in w2\<lparr>personas := personas w2 @
           [\<lparr>p_class = c, p_remote_url = remote_url, mention_name = mention,
             client_session_future = t2, acp_slash_commands = []\<rparr>]\<rparr>)"

text \<open>\<open>_init_client\<close>: it has no \<open>await\<close> and runs in one piece.\<close>

definition init_client :: "nat \<Rightarrow> world \<Rightarrow> outcome option \<times> world" where
  "init_client self w =
     (let p = personas w ! self in
      case RemoteAcpClient_init (p_remote_url p) w of
        (Inl e, w') \<Rightarrow> (Some (Raised e), w')
      | (Inr k, w') \<Rightarrow>
          (Some (Returned (ClientRef k)),
           add_log (ClientInitialized (cls_name (p_class p)) (p_remote_url p)) w'))"

text \<open>
  \<open>get_client\<close>, \<open>get_session\<close> and \<open>get_session_id\<close> await a stored task and change
  nothing. Awaiting \<open>None\<close> is a \<open>TypeError\<close>.
\<close>

definition get_client :: "world \<Rightarrow> nat \<Rightarrow> outcome option" where
  "get_client w self =
     (case class_getattr (class_dict w) (p_class (personas w ! self)) of
        None \<Rightarrow> Some (Raised (Exc AttributeError ''_client_future''))
      | Some None \<Rightarrow> Some (Raised (Exc TypeError ''NoneType cannot be awaited''))
      | Some (Some t) \<Rightarrow> await w t)"

definition get_session :: "world \<Rightarrow> nat \<Rightarrow> outcome option" where
  "get_session w self = await w (client_session_future (personas w ! self))"

definition get_session_id :: "world \<Rightarrow> nat \<Rightarrow> outcome option" where
  "get_session_id w self =
     (case await w (client_session_future (personas w ! self)) of
        None \<Rightarrow> None
      | Some (Raised e) \<Rightarrow> Some (Raised e)
      | Some (Returned (Session sid)) \<Rightarrow> Some (Returned (Str sid))
      | Some (Returned v) \<Rightarrow> Some (Raised (Exc AttributeError ''session_id'')))"

text \<open>
  \<open>_init_client_session\<close>, with the outcome \<open>ns\<close> of \<open>client.create_session\<close>.
\<close>

definition init_client_session ::
  "nat \<Rightarrow> exc + string \<Rightarrow> world \<Rightarrow> outcome option \<times> world" where
  "init_client_session self ns w =
     (case get_client w self of
        None \<Rightarrow> (None, w)
      | Some (Raised e) \<Rightarrow> (Some (Raised e), w)
      | Some (Returned (ClientRef k)) \<Rightarrow>
          (case ns of
             Inl e \<Rightarrow> (Some (Raised e), w)
           | Inr sid \<Rightarrow>
               (Some (Returned (Session sid)),
                add_log (SessionInitialized (cls_name (p_class (personas w ! self))) sid) w))
      | Some (Returned v) \<Rightarrow> (Some (Raised (Exc AttributeError ''create_session'')), w))"

text \<open>
  \<open>process_message\<close>: \<open>None\<close> while one of the two futures is pending, the exception
  of a failed future, or the call of \<open>client.prompt_and_reply\<close> it makes: the client, the
  session ID and the prompt.
\<close>

definition prompt_of :: "string \<Rightarrow> string \<Rightarrow> string" where
  "prompt_of mention body = strip (replace body (CHR ''@'' # mention) [])"

definition process_message :: "world \<Rightarrow> nat \<Rightarrow> string \<Rightarrow> (exc + pyval \<times> pyval \<times> string) option" where
  "process_message w self body =
     (case get_client w self of
        None \<Rightarrow> None
      | Some (Raised e) \<Rightarrow> Some (Inl e)
      | Some (Returned cl) \<Rightarrow>
          (case get_session_id w self of
             None \<Rightarrow> None
           | Some (Raised e) \<Rightarrow> Some (Inl e)
           | Some (Returned session_id) \<Rightarrow>
               Some (Inr (cl, session_id, prompt_of (mention_name (personas w ! self)) body))))"

text \<open>The setter of \<open>acp_slash_commands\<close>.\<close>

definition set_acp_slash_commands :: "nat \<Rightarrow> string list \<Rightarrow> world \<Rightarrow> world" where
  "set_acp_slash_commands self commands w =
     (add_log (SettingSlashCommands (length commands)) w)
       \<lparr>personas := (personas w)[self := (personas w ! self)\<lparr>acp_slash_commands := commands\<rparr>]\<rparr>"

text \<open>
  \<open>shutdown\<close> only creates the task of \<open>_shutdown\<close>. \<open>_shutdown\<close> itself, with the
  outcomes \<open>cc\<close> of \<open>conn.close()\<close> and \<open>ax\<close> of \<open>__aexit__\<close>: the inherited
  \<open>client.get_connection()\<close> awaits the client's connection task. The coroutine is run
  in one piece once the futures it awaits are done (\<open>None\<close> before).
\<close>

definition shutdown :: "nat \<Rightarrow> world \<Rightarrow> world" where
  "shutdown self w = snd (create_task (ShutdownCoro self) w)"

definition shutdown_coro ::
  "nat \<Rightarrow> exc option \<Rightarrow> exc option \<Rightarrow> world \<Rightarrow> outcome option \<times> world" where
  "shutdown_coro self cc ax w =
     (let w1 = add_log (ClosingClient (cls_name (p_class (personas w ! self)))) w;
          done = CompletedClosing (cls_name (p_class (personas w ! self)))
      in case get_client w self of
        None \<Rightarrow> (None, w)
      | Some (Raised e) \<Rightarrow> (Some (Raised e), w1)
      | Some (Returned (ClientRef k)) \<Rightarrow>
          (case await w (connection_future (clients w ! k)) of
             None \<Rightarrow> (None, w)
           | Some (Raised e) \<Rightarrow> (Some (Raised e), w1)
           | Some (Returned conn) \<Rightarrow>
               (case cc of
                  Some e \<Rightarrow> (Some (Raised e), w1)
                | None \<Rightarrow>
                    (if connection_context (clients w ! k)
                     then (case RemoteAcpClient_close k ax w1 of
                         (None, w2) \<Rightarrow> (None, w)
                       | (Some (Returned v), w2) \<Rightarrow> (Some (Returned PyNone), add_log done w2)
                       | (Some (Raised e), w2) \<Rightarrow>
                           (if isinstance e Exception
                              then (Some (Returned PyNone), add_log done (add_log (CleanupError e) w2))
                              else (Some (Raised e), w2)))
                     else (Some (Returned PyNone), add_log done w1))))
      | Some (Returned v) \<Rightarrow> (Some (Raised (Exc AttributeError ''get_connection'')), w1))"

text \<open>
  \<open>ExampleRemotePersona.__init__\<close>: \<open>os.environ.get\<close> with the default, then the base
  constructor.
\<close>

definition environ_get :: "(string \<rightharpoonup> string) \<Rightarrow> string \<Rightarrow> string \<Rightarrow> string" where
  "environ_get environ key dflt = (case environ key of None \<Rightarrow> dflt | Some v \<Rightarrow> v)"

definition ExampleRemotePersona_init :: "(string \<rightharpoonup> string) \<Rightarrow> string \<Rightarrow> world \<Rightarrow> world" where
  "ExampleRemotePersona_init environ mention w =
     (let remote_url = environ_get environ ''ACP_SERVER_URL'' ''ws://localhost:8080/ws''
      in RemoteAcpPersona_init ExampleRemotePersona remote_url mention w)"

section \<open>Runs of the process\<close>

text \<open>
  What can happen, one step at a time: a persona is constructed, the event loop runs a
  pending task (with the answers of the outside world), \<open>shutdown\<close> is called on a
  persona, or the client sets a persona's slash commands. Constructions that overlap in
  time are steps in some order, since a constructor never yields to the loop.
\<close>

datatype action =
  Construct cls string string
  | RunTask nat env
  | Shutdown nat
  | SetSlashCommands nat "string list"

definition run_coro :: "coro \<Rightarrow> env \<Rightarrow> world \<Rightarrow> outcome option \<times> world" where
  "run_coro k e w =
     (case k of
        InitClient i \<Rightarrow> init_client i w
      | InitClientSession i \<Rightarrow> init_client_session i (new_session e) w
      | InitConnection c \<Rightarrow> init_connection c (handshake e) w
      | ShutdownCoro i \<Rightarrow> shutdown_coro i (conn_close e) (aexit e) w)"

definition run_task :: "nat \<Rightarrow> env \<Rightarrow> world \<Rightarrow> world" where
  "run_task t e w =
     (if t < length (tasks w) \<and> result (tasks w ! t) = None
      then (case run_coro (coro (tasks w ! t)) e w of
              (None, w') \<Rightarrow> w'
            | (Some r, w') \<Rightarrow> set_result t r w')
      else w)"

fun step :: "action \<Rightarrow> world \<Rightarrow> world" where
  "step (Construct c remote_url mention) w = RemoteAcpPersona_init c remote_url mention w"
| "step (RunTask t e) w = run_task t e w"
| "step (Shutdown i) w = (if i < length (personas w) then shutdown i w else w)"
| "step (SetSlashCommands i commands) w =
     (if i < length (personas w) then set_acp_slash_commands i commands w else w)"

definition run :: "action list \<Rightarrow> world \<Rightarrow> world" where
  "run acts w = fold step acts w"

section \<open>Sample runs\<close>

text \<open>An outside world in which every call succeeds; the server names the session.\<close>

definition env_ok :: "string \<Rightarrow> env" where
  "env_ok sid = \<lparr>handshake = None, new_session = Inr sid, conn_close = None, aexit = None\<rparr>"

text \<open>
  One persona with the mention name \<open>bot\<close>, whose client and session tasks have run.
\<close>

definition world_bot :: world where
  "world_bot = run [Construct ExampleRemotePersona ''ws://localhost:8080/ws'' ''bot'',
                    RunTask 0 (env_ok ''s1''), RunTask 1 (env_ok ''s1'')] world0"

text \<open>
  Two personas of the class \<open>ExampleRemotePersona\<close>, constructed one after the other
  before the loop runs the client task.
\<close>

definition world_pair :: world where
  "world_pair = run [Construct ExampleRemotePersona ''ws://localhost:8080/ws'' ''bot'',
                     Construct ExampleRemotePersona ''ws://localhost:8080/ws'' ''bot'',
                     RunTask 0 (env_ok ''s1'')] world0"

text \<open>
  A persona of \<open>ExampleRemotePersona\<close> and one of a subclass of it, against the same
  endpoint; both client tasks have run.
\<close>

definition ChildPersona :: cls where
  "ChildPersona = Subclass ''ChildPersona'' ExampleRemotePersona"

definition world_family :: world where
  "world_family = run [Construct ExampleRemotePersona ''ws://localhost:8080/ws'' ''bot'',
                       Construct ChildPersona ''ws://localhost:8080/ws'' ''kid'',
                       RunTask 0 (env_ok ''s1''), RunTask 2 (env_ok ''s2'')] world0"

text \<open>
  \<open>world_bot\<close> some steps later: \<open>shutdown\<close> is called and its task runs, the slash
  commands are set, and a second persona of the class is constructed.
\<close>

definition world_later :: world where
  "world_later = run [Shutdown 0, RunTask 3 (env_ok ''s1''), SetSlashCommands 0 [''help''],
                      Construct ExampleRemotePersona ''ws://localhost:8080/ws'' ''bot'',
                      RunTask 2 (env_ok ''s2'')] world_bot"

text \<open>
  One persona whose client task has run: the client exists, its connection task is
  created and has not started. Then the connection task has started and the handshake is
  in flight; then the handshake has succeeded.
\<close>

definition world_fresh :: world where
  "world_fresh = run [Construct ExampleRemotePersona ''ws://localhost:8080/ws'' ''bot'',
                      RunTask 0 (env_ok ''s1'')] world0"

definition world_inflight :: world where
  "world_inflight = run [RunTask 2 (env_ok ''s1'')] world_fresh"

definition world_live :: world where
  "world_live = run [RunTask 2 (env_ok ''s1'')] world_inflight"

text \<open>
  On the live connection \<open>shutdown\<close> is called and its task runs, in an outside world
  where \<open>conn.close()\<close> raises.
\<close>

definition world_boom :: world where
  "world_boom = run [Shutdown 0,
                     RunTask 3 ((env_ok ''s1'')\<lparr>conn_close := Some (Exc RuntimeError ''boom'')\<rparr>)]
                  world_live"

text \<open>The same with a \<open>conn.close()\<close> that succeeds and an \<open>__aexit__\<close> that raises.\<close>

definition world_aexit :: world where
  "world_aexit = run [Shutdown 0,
                      RunTask 3 ((env_ok ''s1'')\<lparr>aexit := Some (Exc RuntimeError ''boom'')\<rparr>)]
                   world_live"

section \<open>Invariants of a run\<close>

text \<open>The endpoint URLs that pass the two checks of \<open>RemoteAcpClient.__init__\<close>.\<close>

definition valid_url :: "string \<Rightarrow> bool" where
  "valid_url u = (\<not> (u = [] \<or> strip u = []) \<and> (startswith u ''ws://'' \<or> startswith u ''wss://''))"

text \<open>
  Every task refers to an object that exists and that refers back to it: the client
  task of a persona is the \<open>_client_future\<close> of the persona's class, a session task is
  the \<open>_client_session_future\<close> of its persona, a connection task the
  \<open>_connection_future\<close> of its client.
\<close>

definition tasks_ok :: "world \<Rightarrow> bool" where
  "tasks_ok w = (\<forall>t<length (tasks w). \<forall>i.
       (coro (tasks w ! t) = InitClient i \<longrightarrow>
          i < length (personas w) \<and> class_dict w (p_class (personas w ! i)) = Some (Some t))
     \<and> (coro (tasks w ! t) = InitClientSession i \<longrightarrow>
          i < length (personas w) \<and> client_session_future (personas w ! i) = t)
     \<and> (coro (tasks w ! t) = InitConnection i \<longrightarrow>
          i < length (clients w) \<and> connection_future (clients w ! i) = t)
     \<and> (coro (tasks w ! t) = ShutdownCoro i \<longrightarrow> i < length (personas w)))"

definition clients_ok :: "world \<Rightarrow> bool" where
  "clients_ok w = (\<forall>k<length (clients w).
       connection_future (clients w ! k) < length (tasks w)
     \<and> coro (tasks w ! connection_future (clients w ! k)) = InitConnection k)"

definition personas_ok :: "world \<Rightarrow> bool" where
  "personas_ok w = (\<forall>i<length (personas w).
       client_session_future (personas w ! i) < length (tasks w)
     \<and> coro (tasks w ! client_session_future (personas w ! i)) = InitClientSession i
     \<and> (\<exists>t. class_dict w (p_class (personas w ! i)) = Some (Some t)))"

definition dict_ok :: "world \<Rightarrow> bool" where
  "dict_ok w = (\<forall>c t. class_dict w c = Some (Some t) \<longrightarrow>
       t < length (tasks w)
     \<and> (\<exists>i<length (personas w). coro (tasks w ! t) = InitClient i \<and> p_class (personas w ! i) = c))"

text \<open>
  Only a client task returns a client, a client it returns exists, and no two tasks
  return the same client. A client task fails only on a URL that is not valid.
\<close>

definition results_ok :: "world \<Rightarrow> bool" where
  "results_ok w = (\<forall>t<length (tasks w). \<forall>k.
       result (tasks w ! t) = Some (Returned (ClientRef k)) \<longrightarrow>
         k < length (clients w) \<and> (\<exists>i. coro (tasks w ! t) = InitClient i)
       \<and> (\<forall>t'<length (tasks w). t' \<noteq> t \<longrightarrow>
              result (tasks w ! t') \<noteq> Some (Returned (ClientRef k))))"

definition failures_ok :: "world \<Rightarrow> bool" where
  "failures_ok w = (\<forall>t<length (tasks w). \<forall>i.
       coro (tasks w ! t) = InitClient i \<longrightarrow>
         (\<forall>e. result (tasks w ! t) = Some (Raised e) \<longrightarrow>
              \<not> valid_url (p_remote_url (personas w ! i)))
       \<and> (\<forall>v. result (tasks w ! t) = Some (Returned v) \<longrightarrow> (\<exists>k. v = ClientRef k)))"

definition wf :: "world \<Rightarrow> bool" where
  "wf w = (tasks_ok w \<and> clients_ok w \<and> personas_ok w \<and> dict_ok w \<and> results_ok w \<and> failures_ok w)"

text \<open>
  What a step that creates no object may change: results of tasks, and fields of
  clients and personas that no task or class refers to.
\<close>

definition frame :: "world \<Rightarrow> world \<Rightarrow> bool" where
  "frame w w' = (class_dict w' = class_dict w
     \<and> length (tasks w') = length (tasks w)
     \<and> (\<forall>t. coro (tasks w' ! t) = coro (tasks w ! t))
     \<and> length (clients w') = length (clients w)
     \<and> (\<forall>k. connection_future (clients w' ! k) = connection_future (clients w ! k))
     \<and> length (personas w') = length (personas w)
     \<and> (\<forall>i. p_class (personas w' ! i) = p_class (personas w ! i)
            \<and> p_remote_url (personas w' ! i) = p_remote_url (personas w ! i)
            \<and> client_session_future (personas w' ! i) = client_session_future (personas w ! i)))"

section \<open>Counting what a run has started\<close>

text \<open>
  The client initializations started for a class: the tasks of \<open>_init_client\<close> whose
  persona is an instance of the class.
\<close>

definition client_init_tasks :: "world \<Rightarrow> cls \<Rightarrow> nat list" where
  "client_init_tasks w c =
     filter (\<lambda>t. case coro (tasks w ! t) of
                    InitClient i \<Rightarrow> p_class (personas w ! i) = c
                  | _ \<Rightarrow> False)
       [0..<length (tasks w)]"

text \<open>
  The handshakes started for a class: the tasks of \<open>_init_connection\<close> of the clients
  that the client initializations of the class have constructed and returned.
\<close>

definition handshake_tasks :: "world \<Rightarrow> cls \<Rightarrow> nat list" where
  "handshake_tasks w c =
     filter (\<lambda>t. case coro (tasks w ! t) of
                    InitConnection k \<Rightarrow>
                      (\<exists>u\<in>set (client_init_tasks w c).
                          result (tasks w ! u) = Some (Returned (ClientRef k)))
                  | _ \<Rightarrow> False)
       [0..<length (tasks w)]"

text \<open>The session creations started for a persona: the tasks of its \<open>_init_client_session\<close>.\<close>

definition session_init_tasks :: "world \<Rightarrow> nat \<Rightarrow> nat list" where
  "session_init_tasks w i =
     filter (\<lambda>t. coro (tasks w ! t) = InitClientSession i) [0..<length (tasks w)]"

text \<open>
  A later state of the process keeps what an earlier one has fixed: the tasks with
  their coroutines and the outcomes they have reached, the personas with their class,
  URL and session task, the clients with their connection task.
\<close>

definition extends :: "world \<Rightarrow> world \<Rightarrow> bool" where
  "extends w w' = (length (tasks w) \<le> length (tasks w')
     \<and> (\<forall>t<length (tasks w). coro (tasks w' ! t) = coro (tasks w ! t)
           \<and> (\<forall>r. result (tasks w ! t) = Some r \<longrightarrow> result (tasks w' ! t) = Some r))
     \<and> length (personas w) \<le> length (personas w')
     \<and> (\<forall>i<length (personas w). p_class (personas w' ! i) = p_class (personas w ! i)
           \<and> p_remote_url (personas w' ! i) = p_remote_url (personas w ! i)
           \<and> client_session_future (personas w' ! i) = client_session_future (personas w ! i))
     \<and> length (clients w) \<le> length (clients w')
     \<and> (\<forall>k<length (clients w).
            connection_future (clients w' ! k) = connection_future (clients w ! k)))"

section \<open>Endpoint validation\<close>

lemma strip_all_space: "\<forall>c\<in>set s. isspace c \<Longrightarrow> strip s = []"
proof -
  assume "\<forall>c\<in>set s. isspace c"
  then have h: "dropWhile isspace s = []" by simp
  show "strip s = []" unfolding strip_def lstrip_def rstrip_def h by simp
qed

text \<open>
  C10. An endpoint URL that is not empty and consists of whitespace characters only is
  refused by the constructor with the error of the empty string, \<open>remote_url cannot be
  empty\<close>: the first check catches it, the scheme check is not reached, and the process
  is left as it was (no connection task is created).
\<close>

theorem whitespace_url_rejected:
  assumes "remote_url \<noteq> []" and "\<forall>c\<in>set remote_url. isspace c"
  shows "RemoteAcpClient_init remote_url w
           = (Inl (Exc ValueError ''remote_url cannot be empty''), w)
    \<and> RemoteAcpClient_init remote_url w = RemoteAcpClient_init [] w"
  using assms by (simp add: RemoteAcpClient_init_def strip_all_space)

theorem whitespace_url_rejected_witness:
  "RemoteAcpClient_init [CHR '' '', CHR 0x09] world0
     = (Inl (Exc ValueError ''remote_url cannot be empty''), world0)
    \<and> RemoteAcpClient_init [CHR '' '', CHR 0x09] world0 = RemoteAcpClient_init [] world0"
  using whitespace_url_rejected [of "[CHR '' '', CHR 0x09]" world0]
  by (simp add: isspace_def RemoteAcpClient_init_def)

text \<open>
  C2, as the specification states it, fails: the constructor refuses the empty URL with
  a \<open>ValueError\<close>, which is not a \<open>ConnectionError\<close>.
\<close>

theorem malformed_url_not_connection_error:
  "fst (RemoteAcpClient_init [] world0) = Inl (Exc ValueError ''remote_url cannot be empty'')
   \<and> \<not> isinstance (Exc ValueError ''remote_url cannot be empty'') ConnectionError"
  by (simp add: RemoteAcpClient_init_def isinstance_def issubclass_def)

text \<open>
  C2, amended. For every malformed endpoint URL (the empty string, or one that starts
  with neither \<open>ws://\<close> nor \<open>wss://\<close>) the constructor raises a \<open>ValueError\<close> (an
  \<open>Exception\<close>, not a \<open>ConnectionError\<close>) and leaves the process as it was: it fails
  before any task is created, so before any suspension point and any network attempt.
\<close>

theorem malformed_url_value_error:
  assumes "remote_url = [] \<or> \<not> (startswith remote_url ''ws://'' \<or> startswith remote_url ''wss://'')"
  shows "\<exists>msg. RemoteAcpClient_init remote_url w = (Inl (Exc ValueError msg), w)
    \<and> isinstance (Exc ValueError msg) Exception
    \<and> \<not> isinstance (Exc ValueError msg) ConnectionError"
  using assms by (auto simp: RemoteAcpClient_init_def isinstance_def issubclass_def)

theorem malformed_url_value_error_witness:
  "RemoteAcpClient_init ''http://localhost:8080/ws'' world0
     = (Inl (Exc ValueError ''remote_url must start with ws:// or wss://''), world0)"
  using malformed_url_value_error [of "''http://localhost:8080/ws''" world0]
  by (auto simp: RemoteAcpClient_init_def strip_def lstrip_def rstrip_def isspace_def)

section \<open>The forwarded prompt\<close>

lemma startswith_append: "startswith s p \<Longrightarrow> startswith (s @ t) p"
  by (induction s p rule: startswith.induct) auto

lemma startswith_split: "startswith s p \<Longrightarrow> s = p @ drop (length p) s"
  by (induction s p rule: startswith.induct) auto

lemma contains_Nil: "old \<noteq> [] \<Longrightarrow> \<not> contains [] old"
  by simp

lemma join_Cons: "segs \<noteq> [] \<Longrightarrow> join sep (x # segs) = x @ sep @ join sep segs"
  by (cases segs) auto

lemma join_Cons_hd: "join sep ((c # x) # segs) = c # join sep (x # segs)"
  by (cases segs) auto

lemma join_prefix: "\<exists>rest. join sep (x # segs) = x @ rest"
  by (cases segs) auto

lemma replace_segments:
  "old \<noteq> [] \<Longrightarrow> new = [] \<Longrightarrow>
   \<exists>segs. segs \<noteq> [] \<and> s = join old segs \<and> (\<forall>x\<in>set segs. \<not> contains x old)
      \<and> replace s old new = concat segs"
proof (induction s old new rule: replace.induct)
  case (1 old new)
  then have "[] = join old [[]] \<and> (\<forall>x\<in>set [[]::string]. \<not> contains x old) \<and> replace [] old new = concat [[]::string]"
    by simp
  then show ?case by blast
next
  case (2 c cs old new)
  show ?case
  proof (cases "startswith (c # cs) old")
    case True
    with 2 obtain segs where segs: "segs \<noteq> []" "drop (length old) (c # cs) = join old segs"
      "\<forall>x\<in>set segs. \<not> contains x old" "replace (drop (length old) (c # cs)) old new = concat segs"
      by blast
    have "c # cs = old @ drop (length old) (c # cs)" using True by (rule startswith_split)
    then have "c # cs = join old ([] # segs)" using segs by (simp add: join_Cons)
    moreover have "\<forall>x\<in>set ([] # segs). \<not> contains x old" using segs 2 by simp
    moreover have "replace (c # cs) old new = concat ([] # segs)" using True 2 segs by simp
    ultimately show ?thesis by blast
  next
    case False
    with 2 obtain segs where segs: "segs \<noteq> []" "cs = join old segs"
      "\<forall>x\<in>set segs. \<not> contains x old" "replace cs old new = concat segs"
      by blast
    then obtain x rest where xr: "segs = x # rest" by (cases segs) auto
    obtain tl where tl: "join old (x # rest) = x @ tl" using join_prefix by blast
    have "\<not> startswith (c # x) old"
    proof
      assume "startswith (c # x) old"
      then have "startswith ((c # x) @ tl) old" by (rule startswith_append)
      then show False using False segs xr tl by simp
    qed
    then have "\<forall>y\<in>set ((c # x) # rest). \<not> contains y old" using segs xr by simp
    moreover have "c # cs = join old ((c # x) # rest)" using segs xr by (simp add: join_Cons_hd)
    moreover have "replace (c # cs) old new = concat ((c # x) # rest)" using False 2 segs xr by simp
    ultimately show ?thesis by blast
  qed
qed

lemma rstrip_decomp: "t = rstrip t @ rev (takeWhile isspace (rev t))"
proof -
  have "rev (dropWhile isspace (rev t)) @ rev (takeWhile isspace (rev t))
          = rev (takeWhile isspace (rev t) @ dropWhile isspace (rev t))"
    by (simp only: rev_append)
  also have "\<dots> = t" by simp
  finally show ?thesis by (simp add: rstrip_def)
qed

lemma rstrip_last: "rstrip t \<noteq> [] \<Longrightarrow> \<not> isspace (last (rstrip t))"
  by (simp add: rstrip_def last_rev hd_dropWhile)

lemma lstrip_hd: "lstrip s \<noteq> [] \<Longrightarrow> \<not> isspace (hd (lstrip s))"
  by (simp add: lstrip_def hd_dropWhile)

lemma rstrip_hd: "rstrip t \<noteq> [] \<Longrightarrow> hd (rstrip t) = hd t"
  using rstrip_decomp [of t] by (metis hd_append2)

lemma strip_ends: "strip s \<noteq> [] \<Longrightarrow> \<not> isspace (hd (strip s)) \<and> \<not> isspace (last (strip s))"
proof -
  assume ne: "strip s \<noteq> []"
  then have "lstrip s \<noteq> []" by (auto simp: strip_def rstrip_def)
  then show ?thesis using ne rstrip_hd [of "lstrip s"] rstrip_last [of "lstrip s"] lstrip_hd [of s]
    by (simp add: strip_def)
qed

lemma lstrip_id: "s = [] \<or> \<not> isspace (hd s) \<Longrightarrow> lstrip s = s"
  by (cases s) (auto simp: lstrip_def)

lemma rstrip_id: "s = [] \<or> \<not> isspace (last s) \<Longrightarrow> rstrip s = s"
  by (cases s rule: rev_cases) (auto simp: rstrip_def)

lemma strip_idem: "strip (strip s) = strip s"
proof (cases "strip s = []")
  case True
  have "strip [] = []" by (simp add: strip_def lstrip_def rstrip_def)
  with True show ?thesis by simp
next
  case False
  then show ?thesis using strip_ends [of s] by (simp add: strip_def [of "strip s"] lstrip_id rstrip_id)
qed

lemma process_message_prompt:
  "process_message w self body = Some (Inr (cl, sid, prompt)) \<Longrightarrow>
   prompt = prompt_of (mention_name (personas w ! self)) body"
  by (auto simp: process_message_def split: option.splits outcome.splits)

text \<open>
  C4. When \<open>process_message\<close> forwards a prompt, the message body is a sequence of
  pieces separated by the instance's own mention token (\<open>@\<close> and its mention name), no
  piece contains the token, and the prompt is the pieces put together, trimmed: what is
  removed inside the body is exactly the occurrences of the token. For the body
  \<open>@bot do X\<close> and the mention name \<open>bot\<close> the prompt is \<open>do X\<close> (the witness).
\<close>

theorem prompt_strips_mention:
  assumes "process_message w self body = Some (Inr (cl, sid, prompt))"
  shows "\<exists>segs. body = join (CHR ''@'' # mention_name (personas w ! self)) segs
      \<and> (\<forall>s\<in>set segs. \<not> contains s (CHR ''@'' # mention_name (personas w ! self)))
      \<and> prompt = strip (concat segs)"
proof -
  have p: "prompt = strip (replace body (CHR ''@'' # mention_name (personas w ! self)) [])"
    using process_message_prompt [OF assms] by (simp add: prompt_of_def)
  obtain segs where "body = join (CHR ''@'' # mention_name (personas w ! self)) segs"
     "\<forall>s\<in>set segs. \<not> contains s (CHR ''@'' # mention_name (personas w ! self))"
     "replace body (CHR ''@'' # mention_name (personas w ! self)) [] = concat segs"
    using replace_segments [of "CHR ''@'' # mention_name (personas w ! self)" "[]" body] by auto
  then show ?thesis using p by auto
qed

theorem prompt_strips_mention_witness:
  "process_message world_bot 0 ''@bot do X'' = Some (Inr (ClientRef 0, Str ''s1'', ''do X''))
   \<and> (\<exists>segs. ''@bot do X'' = join ''@bot'' segs
         \<and> (\<forall>s\<in>set segs. \<not> contains s ''@bot'') \<and> ''do X'' = strip (concat segs))"
proof -
  have h: "process_message world_bot 0 ''@bot do X''
             = Some (Inr (ClientRef 0, Str ''s1'', ''do X''))"
    by code_simp
  have m: "mention_name (personas world_bot ! 0) = ''bot''" by code_simp
  show ?thesis using h prompt_strips_mention [OF h] m by simp
qed

text \<open>
  C9. A prompt that \<open>process_message\<close> forwards has no whitespace at either end,
  whatever the body, with or without a mention token: trimming it again changes nothing,
  and when it is not empty its first and last characters are not whitespace.
\<close>

theorem prompt_trimmed:
  assumes "process_message w self body = Some (Inr (cl, sid, prompt))"
  shows "strip prompt = prompt \<and> (prompt \<noteq> [] \<longrightarrow> \<not> isspace (hd prompt) \<and> \<not> isspace (last prompt))"
  using process_message_prompt [OF assms] strip_ends strip_idem by (simp add: prompt_of_def)

theorem prompt_trimmed_witness:
  "process_message world_bot 0 ''  hello  '' = Some (Inr (ClientRef 0, Str ''s1'', ''hello''))
   \<and> strip ''hello'' = ''hello'' \<and> \<not> isspace (hd ''hello'') \<and> \<not> isspace (last ''hello'')"
proof -
  have h: "process_message world_bot 0 ''  hello  ''
             = Some (Inr (ClientRef 0, Str ''s1'', ''hello''))"
    by code_simp
  show ?thesis using h prompt_trimmed [OF h] by simp
qed

section \<open>The invariants hold along every run\<close>

text \<open>
  First what each coroutine may change (\<open>frame\<close>: no object is created; the client
  initialization and the constructors append objects), then that each step keeps \<open>wf\<close>,
  so that every state a run reaches from \<open>world0\<close> is well formed.
\<close>

lemma frame_refl: "frame w w"
  by (simp add: frame_def)

lemma frame_trans: "frame w w1 \<Longrightarrow> frame w1 w2 \<Longrightarrow> frame w w2"
  by (simp add: frame_def)

lemma frame_add_log: "frame w (add_log l w)"
  by (simp add: frame_def add_log_def)

lemma nth_update_keeps:
  "f x = f (xs ! k) \<Longrightarrow> f (xs[k := x] ! j) = f (xs ! j)"
  by (cases "k < length xs"; cases "j = k") (simp_all add: list_update_beyond not_less)

lemma nth_update_field:
  "coro ((ts[t := (ts ! t)\<lparr>result := r\<rparr>]) ! u) = coro (ts ! u)"
  by (rule nth_update_keeps) simp

lemma frame_set_result: "frame w (set_result t r w)"
  by (simp add: frame_def set_result_def nth_update_field)

lemma nth_update_client:
  "connection_future (cs[k := (cs ! k)\<lparr>connection_context := b\<rparr>] ! j) = connection_future (cs ! j)"
  "connection_future (cs[k := (cs ! k)\<lparr>aexit_calls := n\<rparr>] ! j) = connection_future (cs ! j)"
  by (rule nth_update_keeps, simp)+

lemma nth_update_persona:
  "p_class (ps[i := (ps ! i)\<lparr>acp_slash_commands := x\<rparr>] ! j) = p_class (ps ! j)"
  "p_remote_url (ps[i := (ps ! i)\<lparr>acp_slash_commands := x\<rparr>] ! j) = p_remote_url (ps ! j)"
  "client_session_future (ps[i := (ps ! i)\<lparr>acp_slash_commands := x\<rparr>] ! j) = client_session_future (ps ! j)"
  by (rule nth_update_keeps, simp)+

lemma frame_set_commands: "frame w (set_acp_slash_commands i cmds w)"
  by (simp add: frame_def set_acp_slash_commands_def add_log_def nth_update_persona)

lemma tasks_add_log [simp]: "tasks (add_log l w) = tasks w"
  by (simp add: add_log_def)




lemma frame_init_connection:
  "init_connection k hs w = (r, w') \<Longrightarrow> frame w w' \<and> tasks w' = tasks w \<and> (\<forall>j. r \<noteq> Some (Returned (ClientRef j)))"
  by (auto simp: init_connection_def Let_def frame_def add_log_def nth_update_client
      split: option.splits if_splits)


lemma frame_init_client_session:
  "init_client_session i ns w = (r, w') \<Longrightarrow> frame w w' \<and> tasks w' = tasks w \<and> (\<forall>j. r \<noteq> Some (Returned (ClientRef j)))"
  by (auto simp: init_client_session_def frame_def add_log_def
      split: option.splits outcome.splits pyval.splits sum.splits)


lemma frame_aexit:
  "frame w (w\<lparr>clients := (clients w)[k := (clients w ! k)\<lparr>aexit_calls := n\<rparr>]\<rparr>)"
  by (simp add: frame_def nth_update_client)

lemma close_effect:
  assumes "RemoteAcpClient_close k ax w = (r, w')"
  shows "frame w w' \<and> tasks w' = tasks w \<and> (\<forall>v. r = Some (Returned v) \<longrightarrow> v = PyNone)"
proof (cases "connection_context (clients w ! k)")
  case False
  then have "r = Some (Returned PyNone)" "w' = w"
    using assms by (auto simp add: RemoteAcpClient_close_def)
  then show ?thesis by (simp add: frame_refl)
next
  case True
  show ?thesis
  proof (cases "await w (connection_future (clients w ! k))")
    case None
    then have "w' = w" "r = None" using assms True by (auto simp add: RemoteAcpClient_close_def)
    then show ?thesis by (simp add: frame_refl)
  next
    case (Some out)
    let ?w1 = "w\<lparr>clients := (clients w)[k := (clients w ! k)\<lparr>aexit_calls := Suc (aexit_calls (clients w ! k))\<rparr>]\<rparr>"
    have f1: "frame w ?w1" by (rule frame_aexit)
    have t1: "tasks ?w1 = tasks w" by simp
    show ?thesis
    proof (cases out)
      case (Raised e)
      then have "RemoteAcpClient_close k ax w = (if isinstance e Exception
               then (Some (Returned PyNone), add_log (CloseError e) w)
               else (Some (Raised e), w))"
        using True Some by (simp add: RemoteAcpClient_close_def)
      then have "(r, w') = (if isinstance e Exception
               then (Some (Returned PyNone), add_log (CloseError e) w)
               else (Some (Raised e), w))"
        using assms by simp
      then show ?thesis by (cases "isinstance e Exception") (simp_all add: frame_refl frame_add_log)
    next
      case (Returned conn)
      then have "RemoteAcpClient_close k ax w = (case ax of
                 None \<Rightarrow> (Some (Returned PyNone), add_log (ClosedConnection (c_remote_url (clients w ! k))) ?w1)
               | Some e \<Rightarrow>
                   (if isinstance e Exception
                      then (Some (Returned PyNone), add_log (CloseError e) ?w1)
                      else (Some (Raised e), ?w1)))"
        using True Some by (simp add: RemoteAcpClient_close_def Let_def)
      then have eq: "(r, w') = (case ax of
                 None \<Rightarrow> (Some (Returned PyNone), add_log (ClosedConnection (c_remote_url (clients w ! k))) ?w1)
               | Some e \<Rightarrow>
                   (if isinstance e Exception
                      then (Some (Returned PyNone), add_log (CloseError e) ?w1)
                      else (Some (Raised e), ?w1)))"
        using assms by simp
      have f2: "frame w (add_log l ?w1)" for l
        using f1 frame_add_log [of ?w1 l] by (rule frame_trans)
      have t2: "tasks (add_log l ?w1) = tasks w" for l by simp
      show ?thesis
      proof (cases ax)
        case None
        then have "r = Some (Returned PyNone)" "w' = add_log (ClosedConnection (c_remote_url (clients w ! k))) ?w1"
          using eq by simp_all
        then show ?thesis using f2 t2 by simp
      next
        case (Some e)
        then have "(r, w') = (if isinstance e Exception
                      then (Some (Returned PyNone), add_log (CloseError e) ?w1)
                      else (Some (Raised e), ?w1))" using eq by simp
        then show ?thesis using f1 f2 t1 t2 by (cases "isinstance e Exception") simp_all
      qed
    qed
  qed
qed


lemma frame_log_right: "frame w w' \<Longrightarrow> frame w (add_log l w')"
  using frame_add_log frame_trans by blast

lemma frame_log_left: "frame (add_log l w) w' \<Longrightarrow> frame w w'"
  using frame_add_log frame_trans by blast

lemma shutdown_coro_effect:
  assumes "shutdown_coro i cc ax w = (r, w')"
  shows "frame w w' \<and> tasks w' = tasks w \<and> (\<forall>j. r \<noteq> Some (Returned (ClientRef j)))"
proof -
  let ?w1 = "add_log (ClosingClient (cls_name (p_class (personas w ! i)))) w"
  let ?done = "CompletedClosing (cls_name (p_class (personas w ! i)))"
  have f1: "frame w ?w1" by (rule frame_add_log)
  have same: "frame w w \<and> tasks w = tasks w" by (simp add: frame_refl)
  have logged: "frame w ?w1 \<and> tasks ?w1 = tasks w" using f1 by simp
  show ?thesis
  proof (cases "get_client w i")
    case None
    then have "(r, w') = (None, w)" using assms by (simp add: shutdown_coro_def Let_def)
    then show ?thesis using same by simp
  next
    case gc: (Some out)
    show ?thesis
    proof (cases out)
      case (Raised e)
      then have "(r, w') = (Some (Raised e), ?w1)"
        using assms gc by (simp add: shutdown_coro_def Let_def)
      then show ?thesis using logged by simp
    next
      case (Returned v)
      have other: "\<forall>k. v \<noteq> ClientRef k \<Longrightarrow> ?thesis"
      proof -
        assume "\<forall>k. v \<noteq> ClientRef k"
        then have "(r, w') = (Some (Raised (Exc AttributeError ''get_connection'')), ?w1)"
          using assms gc Returned by (cases v) (simp_all add: shutdown_coro_def Let_def)
        then show ?thesis using logged by simp
      qed
      show ?thesis
      proof (cases "\<exists>k. v = ClientRef k")
        case False
        then show ?thesis using other by simp
      next
        case True
        then obtain k where k: "v = ClientRef k" by blast
        note sel = gc Returned k
        show ?thesis
        proof (cases "await w (connection_future (clients w ! k))")
          case None
          then have "(r, w') = (None, w)"
            using assms sel by (simp add: shutdown_coro_def Let_def)
          then show ?thesis using same by simp
        next
          case aw: (Some out2)
          show ?thesis
          proof (cases out2)
            case (Raised e)
            then have "(r, w') = (Some (Raised e), ?w1)"
              using assms sel aw by (simp add: shutdown_coro_def Let_def)
            then show ?thesis using logged by simp
          next
            case conn: (Returned c)
            show ?thesis
            proof (cases cc)
              case (Some e)
              then have "(r, w') = (Some (Raised e), ?w1)"
                using assms sel aw conn by (simp add: shutdown_coro_def Let_def)
              then show ?thesis using logged by simp
            next
              case None
              show ?thesis
              proof (cases "connection_context (clients w ! k)")
                case False
                then have "(r, w') = (Some (Returned PyNone), add_log ?done ?w1)"
                  using assms sel aw conn None by (simp add: shutdown_coro_def Let_def)
                then show ?thesis using frame_log_right [OF f1] by simp
              next
                case True
                obtain r2 w2 where cl: "RemoteAcpClient_close k ax ?w1 = (r2, w2)"
                  by (cases "RemoteAcpClient_close k ax ?w1")
                have f2: "frame w w2" "tasks w2 = tasks w"
                  using close_effect [OF cl] f1 frame_trans by auto
                have eq: "(r, w') = (case r2 of
                         None \<Rightarrow> (None, w)
                       | Some (Returned v) \<Rightarrow> (Some (Returned PyNone), add_log ?done w2)
                       | Some (Raised e) \<Rightarrow>
                           (if isinstance e Exception
                              then (Some (Returned PyNone), add_log ?done (add_log (CleanupError e) w2))
                              else (Some (Raised e), w2)))"
                  using assms sel aw conn None True cl
                  by (simp add: shutdown_coro_def Let_def split: option.splits outcome.splits)
                show ?thesis
                proof (cases r2)
                  case None
                  then show ?thesis using eq same by simp
                next
                  case (Some o3)
                  show ?thesis
                  proof (cases o3)
                    case (Returned v3)
                    then show ?thesis using eq Some f2 frame_log_right by simp
                  next
                    case (Raised e3)
                    then show ?thesis using eq Some f2 frame_log_right
                      by (cases "isinstance e3 Exception") simp_all
                  qed
                qed
              qed
            qed
          qed
        qed
      qed
    qed
  qed
qed


lemma class_getattr_own: "d c = Some v \<Longrightarrow> class_getattr d c = Some v"
  by (cases c) simp_all

lemma init_cond: "(d c = None \<or> class_getattr d c = Some None) = (d c = None \<or> d c = Some None)"
  by (cases "d c") (simp_all add: class_getattr_own)

lemma init_client_effect:
  assumes "init_client i w = (r, w')"
  shows "(\<not> valid_url (p_remote_url (personas w ! i)) \<and> (\<exists>e. r = Some (Raised e)) \<and> w' = w)
    \<or> (valid_url (p_remote_url (personas w ! i))
       \<and> r = Some (Returned (ClientRef (length (clients w))))
       \<and> tasks w' = tasks w @ [\<lparr>coro = InitConnection (length (clients w)), result = None\<rparr>]
       \<and> clients w' = clients w @ [\<lparr>c_remote_url = p_remote_url (personas w ! i),
             connection_context = False, aexit_calls = 0, connection_future = length (tasks w)\<rparr>]
       \<and> personas w' = personas w \<and> class_dict w' = class_dict w)"
  using assms
  by (auto simp: init_client_def RemoteAcpClient_init_def Let_def valid_url_def create_task_def add_log_def
      split: if_splits)

lemma construct_effect:
  "(\<exists>t. class_dict w c = Some (Some t)
      \<and> tasks (RemoteAcpPersona_init c u m w)
            = tasks w @ [\<lparr>coro = InitClientSession (length (personas w)), result = None\<rparr>]
      \<and> class_dict (RemoteAcpPersona_init c u m w) = class_dict w
      \<and> clients (RemoteAcpPersona_init c u m w) = clients w
      \<and> personas (RemoteAcpPersona_init c u m w) = personas w @
           [\<lparr>p_class = c, p_remote_url = u, mention_name = m,
             client_session_future = length (tasks w), acp_slash_commands = []\<rparr>])
   \<or> ((class_dict w c = None \<or> class_dict w c = Some None)
      \<and> tasks (RemoteAcpPersona_init c u m w)
            = tasks w @ [\<lparr>coro = InitClient (length (personas w)), result = None\<rparr>,
                         \<lparr>coro = InitClientSession (length (personas w)), result = None\<rparr>]
      \<and> class_dict (RemoteAcpPersona_init c u m w) = (class_dict w)(c := Some (Some (length (tasks w))))
      \<and> clients (RemoteAcpPersona_init c u m w) = clients w
      \<and> personas (RemoteAcpPersona_init c u m w) = personas w @
           [\<lparr>p_class = c, p_remote_url = u, mention_name = m,
             client_session_future = Suc (length (tasks w)), acp_slash_commands = []\<rparr>])"
proof (cases "class_dict w c = None \<or> class_dict w c = Some None")
  case True
  then show ?thesis
    by (simp add: RemoteAcpPersona_init_def init_cond Let_def create_task_def)
next
  case False
  then obtain t where "class_dict w c = Some (Some t)" by (cases "class_dict w c") auto
  then show ?thesis
    by (simp add: RemoteAcpPersona_init_def class_getattr_own Let_def create_task_def)
qed


lemma frame_tasks_ok: "frame w w' \<Longrightarrow> tasks_ok w \<Longrightarrow> tasks_ok w'"
  unfolding frame_def tasks_ok_def by simp

lemma frame_clients_ok: "frame w w' \<Longrightarrow> clients_ok w \<Longrightarrow> clients_ok w'"
  by (simp add: frame_def clients_ok_def)

lemma frame_personas_ok: "frame w w' \<Longrightarrow> personas_ok w \<Longrightarrow> personas_ok w'"
  by (simp add: frame_def personas_ok_def)

lemma frame_dict_ok: "frame w w' \<Longrightarrow> dict_ok w \<Longrightarrow> dict_ok w'"
  by (simp add: frame_def dict_ok_def)

lemma frame_results_ok:
  assumes "frame w w'" "tasks w' = tasks w" "results_ok w"
  shows "results_ok w'"
proof -
  have "length (clients w') = length (clients w)" using assms(1) by (simp add: frame_def)
  then show ?thesis using assms(2,3) by (simp add: results_ok_def)
qed

lemma frame_failures_ok:
  assumes "frame w w'" "tasks w' = tasks w" "failures_ok w"
  shows "failures_ok w'"
proof -
  have "\<forall>i. p_remote_url (personas w' ! i) = p_remote_url (personas w ! i)"
    using assms(1) by (simp add: frame_def)
  then show ?thesis using assms(2,3) by (simp add: failures_ok_def)
qed

lemma frame_wf: "frame w w' \<Longrightarrow> tasks w' = tasks w \<Longrightarrow> wf w \<Longrightarrow> wf w'"
  by (simp add: wf_def frame_tasks_ok frame_clients_ok frame_personas_ok frame_dict_ok
      frame_results_ok frame_failures_ok)

lemma set_result_fields [simp]:
  "length (tasks (set_result t r w)) = length (tasks w)"
  "coro (tasks (set_result t r w) ! u) = coro (tasks w ! u)"
  "clients (set_result t r w) = clients w"
  "personas (set_result t r w) = personas w"
  "class_dict (set_result t r w) = class_dict w"
  "log (set_result t r w) = log w"
  by (simp_all add: set_result_def nth_update_field)

lemma set_result_result:
  "t < length (tasks w) \<Longrightarrow>
   result (tasks (set_result t r w) ! u) = (if u = t then Some r else result (tasks w ! u))"
  by (simp add: set_result_def nth_list_update)

lemma set_result_tasks_ok: "tasks_ok w \<Longrightarrow> tasks_ok (set_result t r w)"
  using frame_set_result frame_tasks_ok by blast

lemma set_result_clients_ok: "clients_ok w \<Longrightarrow> clients_ok (set_result t r w)"
  using frame_set_result frame_clients_ok by blast

lemma set_result_personas_ok: "personas_ok w \<Longrightarrow> personas_ok (set_result t r w)"
  using frame_set_result frame_personas_ok by blast

lemma set_result_dict_ok: "dict_ok w \<Longrightarrow> dict_ok (set_result t r w)"
  using frame_set_result frame_dict_ok by blast


lemma set_result_failures_ok:
  assumes "failures_ok w" "t < length (tasks w)"
    "\<forall>i. coro (tasks w ! t) = InitClient i \<longrightarrow>
        (\<forall>e. r = Raised e \<longrightarrow> \<not> valid_url (p_remote_url (personas w ! i)))
      \<and> (\<forall>v. r = Returned v \<longrightarrow> (\<exists>k. v = ClientRef k))"
  shows "failures_ok (set_result t r w)"
  using assms unfolding failures_ok_def
  by (simp add: set_result_result)


lemma results_okD:
  assumes "results_ok w" "t < length (tasks w)" "result (tasks w ! t) = Some (Returned (ClientRef k))"
  shows "k < length (clients w)" "\<exists>i. coro (tasks w ! t) = InitClient i"
    "\<And>t'. t' < length (tasks w) \<Longrightarrow> t' \<noteq> t \<Longrightarrow> result (tasks w ! t') \<noteq> Some (Returned (ClientRef k))"
  using assms unfolding results_ok_def by blast+

lemma results_okI:
  assumes "\<And>t k. t < length (tasks w) \<Longrightarrow> result (tasks w ! t) = Some (Returned (ClientRef k)) \<Longrightarrow>
     k < length (clients w) \<and> (\<exists>i. coro (tasks w ! t) = InitClient i)
     \<and> (\<forall>t'<length (tasks w). t' \<noteq> t \<longrightarrow> result (tasks w ! t') \<noteq> Some (Returned (ClientRef k)))"
  shows "results_ok w"
  unfolding results_ok_def using assms by blast

lemma set_result_results_ok:
  assumes ok: "results_ok w" and t: "t < length (tasks w)" and r: "\<forall>k. r \<noteq> Returned (ClientRef k)"
  shows "results_ok (set_result t r w)"
proof (rule results_okI)
  fix u k
  assume u: "u < length (tasks (set_result t r w))"
    and res: "result (tasks (set_result t r w) ! u) = Some (Returned (ClientRef k))"
  have ut: "u \<noteq> t" using res t r by (auto simp: set_result_result)
  then have old: "result (tasks w ! u) = Some (Returned (ClientRef k))"
    using res t by (simp add: set_result_result)
  have ul: "u < length (tasks w)" using u by simp
  note d = results_okD [OF ok ul old]
  have "\<forall>t'<length (tasks (set_result t r w)). t' \<noteq> u \<longrightarrow>
          result (tasks (set_result t r w) ! t') \<noteq> Some (Returned (ClientRef k))"
  proof (intro allI impI)
    fix t' assume "t' < length (tasks (set_result t r w))" "t' \<noteq> u"
    then show "result (tasks (set_result t r w) ! t') \<noteq> Some (Returned (ClientRef k))"
      using d(3) [of t'] t r by (cases "t' = t") (simp_all add: set_result_result)
  qed
  then show "k < length (clients (set_result t r w)) \<and> (\<exists>i. coro (tasks (set_result t r w) ! u) = InitClient i)
     \<and> (\<forall>t'<length (tasks (set_result t r w)). t' \<noteq> u \<longrightarrow>
          result (tasks (set_result t r w) ! t') \<noteq> Some (Returned (ClientRef k)))"
    using d(1,2) by simp
qed


lemma run_other_wf:
  assumes "wf w" "t < length (tasks w)" "\<forall>i. coro (tasks w ! t) \<noteq> InitClient i"
    "frame w w1" "tasks w1 = tasks w" "\<forall>j. r \<noteq> Some (Returned (ClientRef j))"
  shows "wf (case r of None \<Rightarrow> w1 | Some out \<Rightarrow> set_result t out w1)"
proof -
  have w1: "wf w1" using assms(1,4,5) frame_wf by blast
  show ?thesis
  proof (cases r)
    case None
    then show ?thesis using w1 by simp
  next
    case (Some out)
    have "\<forall>k. out \<noteq> Returned (ClientRef k)" using assms(6) Some by simp
    moreover have "t < length (tasks w1)" using assms(2,5) by simp
    moreover have "\<forall>i. coro (tasks w1 ! t) \<noteq> InitClient i" using assms(3,5) by simp
    ultimately show ?thesis using w1 Some
      by (simp add: wf_def set_result_tasks_ok set_result_clients_ok set_result_personas_ok
          set_result_dict_ok set_result_results_ok set_result_failures_ok)
  qed
qed

lemma shutdown_fields:
  "tasks (shutdown i w) = tasks w @ [\<lparr>coro = ShutdownCoro i, result = None\<rparr>]"
  "clients (shutdown i w) = clients w"
  "personas (shutdown i w) = personas w"
  "class_dict (shutdown i w) = class_dict w"
  by (simp_all add: shutdown_def create_task_def)

lemma shutdown_tasks_ok: "tasks_ok w \<Longrightarrow> i < length (personas w) \<Longrightarrow> tasks_ok (shutdown i w)"
  unfolding tasks_ok_def by (simp add: shutdown_fields nth_append less_Suc_eq)


lemma shutdown_clients_ok: "clients_ok w \<Longrightarrow> clients_ok (shutdown i w)"
  unfolding clients_ok_def by (auto simp add: shutdown_fields nth_append less_SucI)

lemma shutdown_personas_ok: "personas_ok w \<Longrightarrow> personas_ok (shutdown i w)"
  unfolding personas_ok_def by (auto simp add: shutdown_fields nth_append less_SucI)

lemma shutdown_dict_ok: "dict_ok w \<Longrightarrow> dict_ok (shutdown i w)"
  unfolding dict_ok_def by (auto simp add: shutdown_fields nth_append less_SucI)

lemma shutdown_failures_ok: "failures_ok w \<Longrightarrow> failures_ok (shutdown i w)"
  unfolding failures_ok_def by (simp add: shutdown_fields nth_append less_Suc_eq)

lemma append_results_ok:
  assumes ok: "results_ok w" and ts: "tasks w' = tasks w @ nt" and "\<forall>x\<in>set nt. result x = None"
    and cl: "length (clients w) \<le> length (clients w')"
  shows "results_ok w'"
proof (rule results_okI)
  fix t k
  assume t: "t < length (tasks w')" and res: "result (tasks w' ! t) = Some (Returned (ClientRef k))"
  have new: "u < length (tasks w') \<Longrightarrow> \<not> u < length (tasks w) \<Longrightarrow> result (tasks w' ! u) = None" for u
    using assms(3) ts by (simp add: nth_append)
  have told: "t < length (tasks w)" using new [of t] t res by auto
  then have old: "result (tasks w ! t) = Some (Returned (ClientRef k))" using res ts by (simp add: nth_append)
  note d = results_okD [OF ok told old]
  have "\<forall>t'<length (tasks w'). t' \<noteq> t \<longrightarrow> result (tasks w' ! t') \<noteq> Some (Returned (ClientRef k))"
  proof (intro allI impI)
    fix t' assume a: "t' < length (tasks w')" "t' \<noteq> t"
    show "result (tasks w' ! t') \<noteq> Some (Returned (ClientRef k))"
    proof (cases "t' < length (tasks w)")
      case True
      then show ?thesis using d(3) [of t'] a ts by (simp add: nth_append)
    next
      case False
      then show ?thesis using new [of t'] a by simp
    qed
  qed
  moreover have "coro (tasks w' ! t) = coro (tasks w ! t)" using told ts by (simp add: nth_append)
  ultimately show "k < length (clients w') \<and> (\<exists>i. coro (tasks w' ! t) = InitClient i)
     \<and> (\<forall>t'<length (tasks w'). t' \<noteq> t \<longrightarrow> result (tasks w' ! t') \<noteq> Some (Returned (ClientRef k)))"
    using d(1,2) cl by simp
qed

lemma shutdown_results_ok: "results_ok w \<Longrightarrow> results_ok (shutdown i w)"
  using append_results_ok [of w "shutdown i w" "[\<lparr>coro = ShutdownCoro i, result = None\<rparr>]"]
  by (simp add: shutdown_fields)

lemma shutdown_wf: "wf w \<Longrightarrow> i < length (personas w) \<Longrightarrow> wf (shutdown i w)"
  by (simp add: wf_def shutdown_tasks_ok shutdown_clients_ok shutdown_personas_ok
      shutdown_dict_ok shutdown_results_ok shutdown_failures_ok)

lemma set_commands_wf: "wf w \<Longrightarrow> wf (set_acp_slash_commands i cmds w)"
  by (rule frame_wf [OF frame_set_commands]) (simp_all add: set_acp_slash_commands_def add_log_def)

lemma init_client_valid_wf:
  assumes wf: "wf w" and t: "t < length (tasks w)" and c: "coro (tasks w ! t) = InitClient i"
    and pending: "result (tasks w ! t) = None"
    and ts: "tasks w' = tasks w @ [\<lparr>coro = InitConnection (length (clients w)), result = None\<rparr>]"
    and cs: "clients w' = clients w @ [cl]" and fut: "connection_future cl = length (tasks w)"
    and ps: "personas w' = personas w" and cd: "class_dict w' = class_dict w"
  shows "wf (set_result t (Returned (ClientRef (length (clients w)))) w')"
proof -
  have a: "tasks_ok w'"
    using wf ts cs fut ps cd unfolding wf_def tasks_ok_def
    by (auto simp add: nth_append less_Suc_eq)
  have b: "clients_ok w'"
    using wf ts cs fut ps cd unfolding wf_def clients_ok_def
    by (auto simp add: nth_append less_Suc_eq)
  have p: "personas_ok w'"
    using wf ts cs fut ps cd unfolding wf_def personas_ok_def
    by (auto simp add: nth_append less_Suc_eq)
  have d: "dict_ok w'"
    using wf ts cs fut ps cd unfolding wf_def dict_ok_def
    by (auto simp add: nth_append less_Suc_eq)
  have f: "failures_ok w'"
    using wf ts cs fut ps cd unfolding wf_def failures_ok_def
    by (auto simp add: nth_append less_Suc_eq)
  have r: "results_ok w'"
    using append_results_ok [of w w' "[\<lparr>coro = InitConnection (length (clients w)), result = None\<rparr>]"]
      wf ts cs by (simp add: wf_def)
  have t': "t < length (tasks w')" using t ts by simp
  have c': "coro (tasks w' ! t) = InitClient i" using t ts c by (simp add: nth_append)
  have f': "failures_ok (set_result t (Returned (ClientRef (length (clients w)))) w')"
    using f t' by (rule set_result_failures_ok) simp
  have r': "results_ok (set_result t (Returned (ClientRef (length (clients w)))) w')"
  proof (rule results_okI)
    fix u k
    let ?w = "set_result t (Returned (ClientRef (length (clients w)))) w'"
    assume u: "u < length (tasks ?w)" and res: "result (tasks ?w ! u) = Some (Returned (ClientRef k))"
    have ul: "u < length (tasks w')" using u by simp
    have fresh: "v < length (tasks w') \<Longrightarrow> result (tasks w' ! v) \<noteq> Some (Returned (ClientRef (length (clients w))))" for v
    proof
      assume v: "v < length (tasks w')" "result (tasks w' ! v) = Some (Returned (ClientRef (length (clients w))))"
      then have "v < length (tasks w)" using ts by (auto simp: nth_append less_Suc_eq)
      moreover from this have "result (tasks w ! v) = Some (Returned (ClientRef (length (clients w))))"
        using v ts by (simp add: nth_append)
      ultimately show False using results_okD(1) [of w v "length (clients w)"] wf by (simp add: wf_def)
    qed
    show "k < length (clients ?w) \<and> (\<exists>i. coro (tasks ?w ! u) = InitClient i)
      \<and> (\<forall>t'<length (tasks ?w). t' \<noteq> u \<longrightarrow> result (tasks ?w ! t') \<noteq> Some (Returned (ClientRef k)))"
    proof (cases "u = t")
      case True
      then have k: "k = length (clients w)" using res t' by (simp add: set_result_result)
      have "\<forall>t'<length (tasks ?w). t' \<noteq> u \<longrightarrow> result (tasks ?w ! t') \<noteq> Some (Returned (ClientRef k))"
        using fresh True k t' by (simp add: set_result_result)
      then show ?thesis using True k cs c' by simp
    next
      case False
      then have old: "result (tasks w' ! u) = Some (Returned (ClientRef k))"
        using res t' by (simp add: set_result_result)
      note dd = results_okD [OF r ul old]
      have kn: "k \<noteq> length (clients w)" using fresh [OF ul] old by auto
      have "\<forall>t'<length (tasks ?w). t' \<noteq> u \<longrightarrow> result (tasks ?w ! t') \<noteq> Some (Returned (ClientRef k))"
      proof (intro allI impI)
        fix t'' assume "t'' < length (tasks ?w)" "t'' \<noteq> u"
        then show "result (tasks ?w ! t'') \<noteq> Some (Returned (ClientRef k))"
          using dd(3) [of t''] kn t' by (cases "t'' = t") (simp_all add: set_result_result)
      qed
      then show ?thesis using dd(1,2) by simp
    qed
  qed
  show ?thesis
    using a b p d r' f'
    by (simp add: wf_def set_result_tasks_ok set_result_clients_ok set_result_personas_ok
        set_result_dict_ok)
qed

lemma construct_wf_old:
  assumes wf: "wf w" and d: "class_dict w c = Some (Some t0)"
    and ts: "tasks w' = tasks w @ [\<lparr>coro = InitClientSession (length (personas w)), result = None\<rparr>]"
    and cd: "class_dict w' = class_dict w" and cs: "clients w' = clients w"
    and ps: "personas w' = personas w @ [p]"
    and pc: "p_class p = c" and pf: "client_session_future p = length (tasks w)"
  shows "wf w'"
proof -
  have a: "tasks_ok w'"
    using wf d ts cs ps cd pc pf unfolding wf_def tasks_ok_def
    by (auto simp add: nth_append less_Suc_eq)
  have b: "clients_ok w'"
    using wf d ts cs ps cd pc pf unfolding wf_def clients_ok_def
    by (auto simp add: nth_append less_Suc_eq)
  have p: "personas_ok w'"
    using wf d ts cs ps cd pc pf unfolding wf_def personas_ok_def
    by (auto simp add: nth_append less_Suc_eq)
  have dd: "dict_ok w'"
    using wf d ts cs ps cd pc pf unfolding wf_def dict_ok_def
    by (auto simp add: nth_append less_Suc_eq)
  have f: "failures_ok w'"
    using wf d ts cs ps cd pc pf unfolding wf_def failures_ok_def tasks_ok_def
    by (auto simp add: nth_append less_Suc_eq)
  have r: "results_ok w'"
    using append_results_ok [of w w' "[\<lparr>coro = InitClientSession (length (personas w)), result = None\<rparr>]"]
      wf ts cs by (simp add: wf_def)
  show ?thesis using a b p dd r f by (simp add: wf_def)
qed

lemma construct_wf_new:
  assumes wf: "wf w" and d: "class_dict w c = None \<or> class_dict w c = Some None"
    and ts: "tasks w' = tasks w @ [\<lparr>coro = InitClient (length (personas w)), result = None\<rparr>,
                         \<lparr>coro = InitClientSession (length (personas w)), result = None\<rparr>]"
    and cd: "class_dict w' = (class_dict w)(c := Some (Some (length (tasks w))))"
    and cs: "clients w' = clients w"
    and ps: "personas w' = personas w @ [p]"
    and pc: "p_class p = c" and pf: "client_session_future p = Suc (length (tasks w))"
  shows "wf w'"
proof -
  have a: "tasks_ok w'"
    using wf d ts cs ps cd pc pf unfolding wf_def tasks_ok_def
    by (auto simp add: nth_append less_Suc_eq)
  have b: "clients_ok w'"
    using wf d ts cs ps cd pc pf unfolding wf_def clients_ok_def
    by (auto simp add: nth_append less_Suc_eq)
  have p: "personas_ok w'"
    using wf d ts cs ps cd pc pf unfolding wf_def personas_ok_def
    by (auto simp add: nth_append less_Suc_eq)
  have dd: "dict_ok w'"
    using wf d ts cs ps cd pc pf unfolding wf_def dict_ok_def
    by (auto simp add: nth_append less_Suc_eq)
  have f: "failures_ok w'"
    using wf d ts cs ps cd pc pf unfolding wf_def failures_ok_def tasks_ok_def
    by (auto simp add: nth_append less_Suc_eq)
  have r: "results_ok w'"
    using append_results_ok [of w w' "[\<lparr>coro = InitClient (length (personas w)), result = None\<rparr>,
                         \<lparr>coro = InitClientSession (length (personas w)), result = None\<rparr>]"]
      wf ts cs by (simp add: wf_def)
  show ?thesis using a b p dd r f by (simp add: wf_def)
qed

lemma construct_wf: "wf w \<Longrightarrow> wf (RemoteAcpPersona_init c u m w)"
  using construct_effect [of w c u m]
    construct_wf_old [of w c _ "RemoteAcpPersona_init c u m w"]
    construct_wf_new [of w c "RemoteAcpPersona_init c u m w"]
  by (elim disjE exE conjE) simp_all

lemma run_task_wf:
  assumes wf: "wf w"
  shows "wf (run_task t e w)"
proof (cases "t < length (tasks w) \<and> result (tasks w ! t) = None")
  case False
  then show ?thesis using wf by (auto simp: run_task_def)
next
  case True
  then have t: "t < length (tasks w)" and pending: "result (tasks w ! t) = None" by auto
  obtain r w1 where rc: "run_coro (coro (tasks w ! t)) e w = (r, w1)"
    by (cases "run_coro (coro (tasks w ! t)) e w")
  have rt: "run_task t e w = (case r of None \<Rightarrow> w1 | Some out \<Rightarrow> set_result t out w1)"
    using True rc by (simp add: run_task_def)
  show ?thesis
  proof (cases "coro (tasks w ! t)")
    case (InitClient i)
    then have ic: "init_client i w = (r, w1)" using rc by (simp add: run_coro_def)
    from init_client_effect [OF ic] show ?thesis
    proof (elim disjE conjE exE)
      fix ex assume inv: "\<not> valid_url (p_remote_url (personas w ! i))" and r: "r = Some (Raised ex)" and w1: "w1 = w"
      have "failures_ok (set_result t (Raised ex) w)"
        using wf t InitClient inv by (intro set_result_failures_ok) (simp_all add: wf_def)
      moreover have "results_ok (set_result t (Raised ex) w)"
        using wf t by (intro set_result_results_ok) (simp_all add: wf_def)
      ultimately show ?thesis using wf rt r w1
        by (simp add: wf_def set_result_tasks_ok set_result_clients_ok set_result_personas_ok
            set_result_dict_ok)
    next
      assume "r = Some (Returned (ClientRef (length (clients w))))"
        "tasks w1 = tasks w @ [\<lparr>coro = InitConnection (length (clients w)), result = None\<rparr>]"
        "clients w1 = clients w @ [\<lparr>c_remote_url = p_remote_url (personas w ! i),
             connection_context = False, aexit_calls = 0, connection_future = length (tasks w)\<rparr>]"
        "personas w1 = personas w" "class_dict w1 = class_dict w"
      then show ?thesis
        using init_client_valid_wf [OF wf t InitClient pending, of w1] rt by simp
    qed
  next
    case (InitClientSession i)
    then have "init_client_session i (new_session e) w = (r, w1)" using rc by (simp add: run_coro_def)
    from frame_init_client_session [OF this] show ?thesis
      using run_other_wf [OF wf t, of w1 r] InitClientSession rt by simp
  next
    case (InitConnection k)
    then have "init_connection k (handshake e) w = (r, w1)" using rc by (simp add: run_coro_def)
    from frame_init_connection [OF this] show ?thesis
      using run_other_wf [OF wf t, of w1 r] InitConnection rt by simp
  next
    case (ShutdownCoro i)
    then have "shutdown_coro i (conn_close e) (aexit e) w = (r, w1)" using rc by (simp add: run_coro_def)
    from shutdown_coro_effect [OF this] show ?thesis
      using run_other_wf [OF wf t, of w1 r] ShutdownCoro rt by simp
  qed
qed

lemma step_wf: "wf w \<Longrightarrow> wf (step a w)"
  by (cases a) (simp_all add: construct_wf run_task_wf shutdown_wf set_commands_wf)

lemma run_wf: "wf w \<Longrightarrow> wf (run acts w)"
  unfolding run_def by (induction acts arbitrary: w) (simp_all add: step_wf)

lemma wf_world0: "wf world0"
  by (simp add: wf_def world0_def tasks_ok_def clients_ok_def personas_ok_def dict_ok_def
      results_ok_def failures_ok_def)

lemma reachable_wf: "wf (run acts world0)"
  by (rule run_wf [OF wf_world0])

section \<open>One shared client per class\<close>

lemma filter_upt_unique:
  "\<forall>u<n. P u \<longrightarrow> u = t \<Longrightarrow> filter P [0..<n] = (if t < n \<and> P t then [t] else [])"
proof (induction n)
  case 0
  then show ?case by simp
next
  case (Suc n)
  then have ih: "filter P [0..<n] = (if t < n \<and> P t then [t] else [])" by simp
  show ?case
  proof (cases "P n")
    case True
    then have "n = t" using Suc.prems by simp
    then show ?thesis using ih True by simp
  next
    case False
    then show ?thesis using ih by (auto simp: less_Suc_eq)
  qed
qed

lemma filter_upt_single:
  assumes "t < n" "P t" "\<forall>u<n. P u \<longrightarrow> u = t"
  shows "filter P [0..<n] = [t]"
  using filter_upt_unique [OF assms(3)] assms(1,2) by simp

lemma filter_upt_none: "\<forall>u<n. \<not> P u \<Longrightarrow> filter P [0..<n] = []"
  by (auto simp: filter_empty_conv)

lemma wfD:
  assumes "wf w"
  shows "tasks_ok w" "clients_ok w" "personas_ok w" "dict_ok w" "results_ok w" "failures_ok w"
  using assms by (simp_all add: wf_def)

lemma class_future:
  assumes "wf w" "i < length (personas w)"
  shows "\<exists>t i0. class_dict w (p_class (personas w ! i)) = Some (Some t) \<and> t < length (tasks w)
     \<and> coro (tasks w ! t) = InitClient i0 \<and> i0 < length (personas w)
     \<and> p_class (personas w ! i0) = p_class (personas w ! i)"
proof -
  obtain t where t: "class_dict w (p_class (personas w ! i)) = Some (Some t)"
    using wfD(3) [OF assms(1)] assms(2) unfolding personas_ok_def by blast
  then show ?thesis using wfD(4) [OF assms(1)] unfolding dict_ok_def by blast
qed

lemma init_client_task_of_class:
  assumes "wf w" "u < length (tasks w)" "coro (tasks w ! u) = InitClient i"
  shows "i < length (personas w)" "class_dict w (p_class (personas w ! i)) = Some (Some u)"
  using wfD(1) [OF assms(1)] assms(2,3) unfolding tasks_ok_def by blast+

lemma client_init_tasks_single:
  assumes wf: "wf w" and d: "class_dict w c = Some (Some t)"
  shows "client_init_tasks w c = [t]"
proof -
  let ?P = "\<lambda>t. case coro (tasks w ! t) of InitClient i \<Rightarrow> p_class (personas w ! i) = c | _ \<Rightarrow> False"
  from wfD(4) [OF wf] d obtain i where t: "t < length (tasks w)"
    and i: "coro (tasks w ! t) = InitClient i" "p_class (personas w ! i) = c"
    unfolding dict_ok_def by blast
  have pt: "?P t" using i by simp
  have uniq: "\<forall>u<length (tasks w). ?P u \<longrightarrow> u = t"
  proof (intro allI impI)
    fix u assume u: "u < length (tasks w)" and pu: "?P u"
    then obtain j where j: "coro (tasks w ! u) = InitClient j" "p_class (personas w ! j) = c"
      by (cases "coro (tasks w ! u)") auto
    from init_client_task_of_class(2) [OF wf u j(1)] j(2) d show "u = t" by simp
  qed
  show ?thesis unfolding client_init_tasks_def by (rule filter_upt_single [OF t pt uniq])
qed

lemma get_client_class:
  "class_dict w (p_class (personas w ! j)) = Some (Some t) \<Longrightarrow> get_client w j = await w t"
  by (simp add: get_client_def class_getattr_own)

lemma connection_task_of_client:
  assumes "wf w" "u < length (tasks w)" "coro (tasks w ! u) = InitConnection k"
  shows "k < length (clients w)" "connection_future (clients w ! k) = u"
  using wfD(1) [OF assms(1)] assms(2,3) unfolding tasks_ok_def by blast+

lemma client_connection_task:
  assumes "wf w" "k < length (clients w)"
  shows "connection_future (clients w ! k) < length (tasks w)"
    "coro (tasks w ! connection_future (clients w ! k)) = InitConnection k"
  using wfD(2) [OF assms(1)] assms(2) unfolding clients_ok_def by blast+

lemma handshake_tasks_eq:
  assumes wf: "wf w" and d: "class_dict w c = Some (Some t)"
  shows "handshake_tasks w c =
     (case await w t of
        Some (Returned (ClientRef k)) \<Rightarrow> [connection_future (clients w ! k)]
      | _ \<Rightarrow> [])"
proof -
  let ?Q = "\<lambda>u. case coro (tasks w ! u) of
                    InitConnection k \<Rightarrow> result (tasks w ! t) = Some (Returned (ClientRef k))
                  | _ \<Rightarrow> False"
  have t: "t < length (tasks w)" using wfD(4) [OF wf] d unfolding dict_ok_def by blast
  have aw: "await w t = result (tasks w ! t)" using t by (simp add: await_def)
  have h: "handshake_tasks w c = filter ?Q [0..<length (tasks w)]"
    unfolding handshake_tasks_def client_init_tasks_single [OF wf d]
    by (rule filter_cong [OF refl]) (simp split: coro.splits)
  show ?thesis
  proof (cases "\<exists>k. result (tasks w ! t) = Some (Returned (ClientRef k))")
    case True
    then obtain k where k: "result (tasks w ! t) = Some (Returned (ClientRef k))" by blast
    have kl: "k < length (clients w)" using results_okD(1) [OF wfD(5) [OF wf] t k] .
    let ?f = "connection_future (clients w ! k)"
    note f = client_connection_task [OF wf kl]
    have qf: "?Q ?f" using f k by simp
    have uniq: "\<forall>u<length (tasks w). ?Q u \<longrightarrow> u = ?f"
    proof (intro allI impI)
      fix u assume u: "u < length (tasks w)" and qu: "?Q u"
      then obtain k' where k': "coro (tasks w ! u) = InitConnection k'"
        "result (tasks w ! t) = Some (Returned (ClientRef k'))"
        by (cases "coro (tasks w ! u)") simp_all
      then have "k' = k" using k by simp
      then show "u = ?f" using connection_task_of_client(2) [OF wf u k'(1)] by simp
    qed
    have "filter ?Q [0..<length (tasks w)] = [?f]" by (rule filter_upt_single [OF f(1) qf uniq])
    then show ?thesis using h aw k by simp
  next
    case False
    have "\<forall>u<length (tasks w). \<not> ?Q u"
    proof (intro allI impI)
      fix u show "\<not> ?Q u" using False by (cases "coro (tasks w ! u)") simp_all
    qed
    then have e: "filter ?Q [0..<length (tasks w)] = []" by (rule filter_upt_none)
    have "(case result (tasks w ! t) of
        Some (Returned (ClientRef k)) \<Rightarrow> [connection_future (clients w ! k)]
      | _ \<Rightarrow> []) = []"
    proof (cases "result (tasks w ! t)")
      case None
      then show ?thesis by simp
    next
      case (Some out)
      show ?thesis
      proof (cases out)
        case (Returned v)
        then show ?thesis using Some False by (cases v) simp_all
      next
        case (Raised e)
        then show ?thesis using Some by simp
      qed
    qed
    then show ?thesis using h e aw by simp
  qed
qed

lemma client_init_outcome:
  assumes wf: "wf w" and d: "class_dict w c = Some (Some t)"
    and valid: "\<forall>j<length (personas w). p_class (personas w ! j) = c \<longrightarrow> valid_url (p_remote_url (personas w ! j))"
    and fin: "await w t \<noteq> None"
  shows "\<exists>k. await w t = Some (Returned (ClientRef k))"
proof -
  from wfD(4) [OF wf] d obtain i where t: "t < length (tasks w)" and il: "i < length (personas w)"
    and i: "coro (tasks w ! t) = InitClient i" "p_class (personas w ! i) = c"
    unfolding dict_ok_def by blast
  have v: "valid_url (p_remote_url (personas w ! i))" using valid il i(2) by simp
  obtain r where r: "result (tasks w ! t) = Some r" using fin t by (auto simp: await_def)
  have f: "(\<forall>e. result (tasks w ! t) = Some (Raised e) \<longrightarrow> \<not> valid_url (p_remote_url (personas w ! i)))
       \<and> (\<forall>v. result (tasks w ! t) = Some (Returned v) \<longrightarrow> (\<exists>k. v = ClientRef k))"
    using wfD(6) [OF wf] t i(1) unfolding failures_ok_def by blast
  show ?thesis using r f v t by (cases r) (auto simp: await_def)
qed

text \<open>
  C1. In every state that a run of the process reaches, whatever the order of the
  constructions and of the tasks the loop runs in between, a class \<open>c\<close> with at least
  one instance has exactly one client initialization, the task \<open>t\<close>; \<open>get_client\<close> of
  every instance of \<open>c\<close> awaits \<open>t\<close>, so all of them get the same outcome, the one shared
  client; at most one handshake is started for \<open>c\<close>, and when the instances of \<open>c\<close> were
  constructed with a valid endpoint and the initialization has run it is exactly one,
  the connection task of the shared client.
\<close>

theorem one_client_per_class:
  assumes "w = run acts world0" and "i < length (personas w)" and "p_class (personas w ! i) = c"
  shows "\<exists>t. client_init_tasks w c = [t]
     \<and> (\<forall>j<length (personas w). p_class (personas w ! j) = c \<longrightarrow> get_client w j = await w t)
     \<and> length (handshake_tasks w c) \<le> 1
     \<and> ((\<forall>j<length (personas w). p_class (personas w ! j) = c
             \<longrightarrow> valid_url (p_remote_url (personas w ! j)))
          \<longrightarrow> await w t \<noteq> None
          \<longrightarrow> (\<exists>k. await w t = Some (Returned (ClientRef k))
                 \<and> handshake_tasks w c = [connection_future (clients w ! k)]))"
proof -
  have wf: "wf w" using assms(1) reachable_wf by simp
  from class_future [OF wf assms(2)] assms(3) obtain t where d: "class_dict w c = Some (Some t)"
    by auto
  have a: "client_init_tasks w c = [t]" by (rule client_init_tasks_single [OF wf d])
  have b: "\<forall>j<length (personas w). p_class (personas w ! j) = c \<longrightarrow> get_client w j = await w t"
    using d get_client_class by auto
  note h = handshake_tasks_eq [OF wf d]
  have c: "length (handshake_tasks w c) \<le> 1"
    unfolding h by (simp split: option.splits outcome.splits pyval.splits)
  have e: "(\<forall>j<length (personas w). p_class (personas w ! j) = c
             \<longrightarrow> valid_url (p_remote_url (personas w ! j)))
          \<longrightarrow> await w t \<noteq> None
          \<longrightarrow> (\<exists>k. await w t = Some (Returned (ClientRef k))
                 \<and> handshake_tasks w c = [connection_future (clients w ! k)])"
  proof (intro impI)
    assume v: "\<forall>j<length (personas w). p_class (personas w ! j) = c
             \<longrightarrow> valid_url (p_remote_url (personas w ! j))" and fin: "await w t \<noteq> None"
    from client_init_outcome [OF wf d v fin] obtain k where k: "await w t = Some (Returned (ClientRef k))"
      by blast
    then show "\<exists>k. await w t = Some (Returned (ClientRef k))
                 \<and> handshake_tasks w c = [connection_future (clients w ! k)]"
      using h by simp
  qed
  show ?thesis using a b c e by blast
qed

theorem one_client_per_class_witness:
  "client_init_tasks world_pair ExampleRemotePersona = [0]
   \<and> get_client world_pair 0 = Some (Returned (ClientRef 0))
   \<and> get_client world_pair 1 = Some (Returned (ClientRef 0))
   \<and> handshake_tasks world_pair ExampleRemotePersona = [3]"
proof -
  have r: "world_pair = run [Construct ExampleRemotePersona ''ws://localhost:8080/ws'' ''bot'',
                     Construct ExampleRemotePersona ''ws://localhost:8080/ws'' ''bot'',
                     RunTask 0 (env_ok ''s1'')] world0"
    by (simp add: world_pair_def)
  have i: "0 < length (personas world_pair)" by code_simp
  have c: "p_class (personas world_pair ! 0) = ExampleRemotePersona" by code_simp
  from one_client_per_class [OF r i c] obtain t where
    t: "client_init_tasks world_pair ExampleRemotePersona = [t]"
    and g: "\<forall>j<length (personas world_pair). p_class (personas world_pair ! j) = ExampleRemotePersona
           \<longrightarrow> get_client world_pair j = await world_pair t"
    by blast
  have t0: "client_init_tasks world_pair ExampleRemotePersona = [0]" by code_simp
  then have "t = 0" using t by simp
  moreover have "1 < length (personas world_pair)" by code_simp
  moreover have "p_class (personas world_pair ! 1) = ExampleRemotePersona" by code_simp
  moreover have "await world_pair 0 = Some (Returned (ClientRef 0))" by code_simp
  moreover have "handshake_tasks world_pair ExampleRemotePersona = [3]" by code_simp
  ultimately show ?thesis using g t0 i c by simp
qed

section \<open>No sharing between classes\<close>

text \<open>
  C7. Two personas of different classes, whatever their endpoints (the same one
  included) and also when one class derives from the other, have different client
  tasks, each the only client initialization of its class; \<open>get_client\<close> of either
  awaits its own class's task, and once both tasks have returned, the two clients and
  their connection tasks differ.
\<close>

theorem subclasses_do_not_share:
  assumes "w = run acts world0" and "i < length (personas w)" and "j < length (personas w)"
    and "p_class (personas w ! i) \<noteq> p_class (personas w ! j)"
  shows "\<exists>ti tj. ti \<noteq> tj
     \<and> client_init_tasks w (p_class (personas w ! i)) = [ti]
     \<and> client_init_tasks w (p_class (personas w ! j)) = [tj]
     \<and> get_client w i = await w ti \<and> get_client w j = await w tj
     \<and> (\<forall>ki kj. await w ti = Some (Returned (ClientRef ki))
            \<longrightarrow> await w tj = Some (Returned (ClientRef kj))
            \<longrightarrow> ki \<noteq> kj
              \<and> connection_future (clients w ! ki) \<noteq> connection_future (clients w ! kj))"
proof -
  have wf: "wf w" using assms(1) reachable_wf by simp
  from class_future [OF wf assms(2)] obtain ti a where
    ti: "class_dict w (p_class (personas w ! i)) = Some (Some ti)" "ti < length (tasks w)"
      "coro (tasks w ! ti) = InitClient a" "p_class (personas w ! a) = p_class (personas w ! i)"
    by blast
  from class_future [OF wf assms(3)] obtain tj b where
    tj: "class_dict w (p_class (personas w ! j)) = Some (Some tj)" "tj < length (tasks w)"
      "coro (tasks w ! tj) = InitClient b" "p_class (personas w ! b) = p_class (personas w ! j)"
    by blast
  have ne: "ti \<noteq> tj"
  proof
    assume "ti = tj"
    then have "a = b" using ti(3) tj(3) by simp
    then show False using ti(4) tj(4) assms(4) by simp
  qed
  have cl: "\<forall>ki kj. await w ti = Some (Returned (ClientRef ki))
            \<longrightarrow> await w tj = Some (Returned (ClientRef kj))
            \<longrightarrow> ki \<noteq> kj
              \<and> connection_future (clients w ! ki) \<noteq> connection_future (clients w ! kj)"
  proof (intro allI impI)
    fix ki kj
    assume "await w ti = Some (Returned (ClientRef ki))" "await w tj = Some (Returned (ClientRef kj))"
    then have ri: "result (tasks w ! ti) = Some (Returned (ClientRef ki))"
      and rj: "result (tasks w ! tj) = Some (Returned (ClientRef kj))"
      using ti(2) tj(2) by (simp_all add: await_def)
    have k: "ki \<noteq> kj"
      using results_okD(3) [OF wfD(5) [OF wf] ti(2) ri tj(2)] ne rj by auto
    have li: "ki < length (clients w)" using results_okD(1) [OF wfD(5) [OF wf] ti(2) ri] .
    have lj: "kj < length (clients w)" using results_okD(1) [OF wfD(5) [OF wf] tj(2) rj] .
    have "connection_future (clients w ! ki) \<noteq> connection_future (clients w ! kj)"
      using client_connection_task(2) [OF wf li] client_connection_task(2) [OF wf lj] k by auto
    then show "ki \<noteq> kj
              \<and> connection_future (clients w ! ki) \<noteq> connection_future (clients w ! kj)"
      using k by simp
  qed
  show ?thesis
    using ne client_init_tasks_single [OF wf ti(1)] client_init_tasks_single [OF wf tj(1)]
      get_client_class [OF ti(1)] get_client_class [OF tj(1)] cl
    by blast
qed

theorem subclasses_do_not_share_witness:
  "client_init_tasks world_family ExampleRemotePersona = [0]
   \<and> client_init_tasks world_family ChildPersona = [2]
   \<and> get_client world_family 0 = Some (Returned (ClientRef 0))
   \<and> get_client world_family 1 = Some (Returned (ClientRef 1))"
proof -
  have r: "world_family = run [Construct ExampleRemotePersona ''ws://localhost:8080/ws'' ''bot'',
                       Construct ChildPersona ''ws://localhost:8080/ws'' ''kid'',
                       RunTask 0 (env_ok ''s1''), RunTask 2 (env_ok ''s2'')] world0"
    by (simp add: world_family_def)
  have i: "0 < length (personas world_family)" by code_simp
  have j: "1 < length (personas world_family)" by code_simp
  have ci: "p_class (personas world_family ! 0) = ExampleRemotePersona" by code_simp
  have cj: "p_class (personas world_family ! 1) = ChildPersona" by code_simp
  have ne: "p_class (personas world_family ! 0) \<noteq> p_class (personas world_family ! 1)"
    unfolding ci cj by (simp add: ChildPersona_def ExampleRemotePersona_def)
  from subclasses_do_not_share [OF r i j ne] obtain ti tj where
    t: "client_init_tasks world_family (p_class (personas world_family ! 0)) = [ti]"
      "client_init_tasks world_family (p_class (personas world_family ! 1)) = [tj]"
      "get_client world_family 0 = await world_family ti"
      "get_client world_family 1 = await world_family tj"
    by blast
  have "client_init_tasks world_family ExampleRemotePersona = [0]" by code_simp
  moreover have "client_init_tasks world_family ChildPersona = [2]" by code_simp
  moreover have "await world_family 0 = Some (Returned (ClientRef 0))" by code_simp
  moreover have "await world_family 2 = Some (Returned (ClientRef 1))" by code_simp
  ultimately show ?thesis using t ci cj by simp
qed

section \<open>A session per instance, fixed for its lifetime\<close>

lemma extends_refl: "extends w w"
  by (simp add: extends_def)

lemma extends_trans:
  assumes "extends w w1" "extends w1 w2"
  shows "extends w w2"
proof -
  have l: "length (tasks w) \<le> length (tasks w1)" "length (personas w) \<le> length (personas w1)"
    "length (clients w) \<le> length (clients w1)"
    using assms(1) by (simp_all add: extends_def)
  have "\<forall>t<length (tasks w). coro (tasks w2 ! t) = coro (tasks w ! t)
           \<and> (\<forall>r. result (tasks w ! t) = Some r \<longrightarrow> result (tasks w2 ! t) = Some r)"
  proof (intro allI impI)
    fix t assume t: "t < length (tasks w)"
    then have t1: "t < length (tasks w1)" using l by simp
    have a: "coro (tasks w1 ! t) = coro (tasks w ! t)"
      "\<forall>r. result (tasks w ! t) = Some r \<longrightarrow> result (tasks w1 ! t) = Some r"
      using assms(1) t unfolding extends_def by blast+
    have b: "coro (tasks w2 ! t) = coro (tasks w1 ! t)"
      "\<forall>r. result (tasks w1 ! t) = Some r \<longrightarrow> result (tasks w2 ! t) = Some r"
      using assms(2) t1 unfolding extends_def by blast+
    show "coro (tasks w2 ! t) = coro (tasks w ! t)
           \<and> (\<forall>r. result (tasks w ! t) = Some r \<longrightarrow> result (tasks w2 ! t) = Some r)"
      using a b by simp
  qed
  moreover have "\<forall>i<length (personas w). p_class (personas w2 ! i) = p_class (personas w ! i)
           \<and> p_remote_url (personas w2 ! i) = p_remote_url (personas w ! i)
           \<and> client_session_future (personas w2 ! i) = client_session_future (personas w ! i)"
  proof (intro allI impI)
    fix i assume i: "i < length (personas w)"
    then have i1: "i < length (personas w1)" using l by simp
    have a: "p_class (personas w1 ! i) = p_class (personas w ! i)
           \<and> p_remote_url (personas w1 ! i) = p_remote_url (personas w ! i)
           \<and> client_session_future (personas w1 ! i) = client_session_future (personas w ! i)"
      using assms(1) i unfolding extends_def by blast
    have b: "p_class (personas w2 ! i) = p_class (personas w1 ! i)
           \<and> p_remote_url (personas w2 ! i) = p_remote_url (personas w1 ! i)
           \<and> client_session_future (personas w2 ! i) = client_session_future (personas w1 ! i)"
      using assms(2) i1 unfolding extends_def by blast
    show "p_class (personas w2 ! i) = p_class (personas w ! i)
           \<and> p_remote_url (personas w2 ! i) = p_remote_url (personas w ! i)
           \<and> client_session_future (personas w2 ! i) = client_session_future (personas w ! i)"
      using a b by simp
  qed
  moreover have "\<forall>k<length (clients w).
            connection_future (clients w2 ! k) = connection_future (clients w ! k)"
  proof (intro allI impI)
    fix k assume k: "k < length (clients w)"
    then have k1: "k < length (clients w1)" using l by simp
    have "connection_future (clients w1 ! k) = connection_future (clients w ! k)"
      using assms(1) k unfolding extends_def by blast
    moreover have "connection_future (clients w2 ! k) = connection_future (clients w1 ! k)"
      using assms(2) k1 unfolding extends_def by blast
    ultimately show "connection_future (clients w2 ! k) = connection_future (clients w ! k)" by simp
  qed
  moreover have "length (tasks w) \<le> length (tasks w2)" "length (personas w) \<le> length (personas w2)"
    "length (clients w) \<le> length (clients w2)"
    using assms by (simp_all add: extends_def)
  ultimately show ?thesis unfolding extends_def by blast
qed

lemma frame_extends: "frame w w' \<Longrightarrow> tasks w' = tasks w \<Longrightarrow> extends w w'"
  by (simp add: frame_def extends_def)

lemma set_result_other:
  "u \<noteq> t \<Longrightarrow> result (tasks (set_result t r w) ! u) = result (tasks w ! u)"
  by (simp add: set_result_def)

lemma set_result_extends:
  assumes "result (tasks w ! t) = None"
  shows "extends w (set_result t r w)"
proof -
  have "\<forall>u<length (tasks w). \<forall>x. result (tasks w ! u) = Some x
          \<longrightarrow> result (tasks (set_result t r w) ! u) = Some x"
  proof (intro allI impI)
    fix u x assume "result (tasks w ! u) = Some x"
    moreover from this have "u \<noteq> t" using assms by auto
    ultimately show "result (tasks (set_result t r w) ! u) = Some x" by (simp add: set_result_other)
  qed
  then show ?thesis unfolding extends_def by simp
qed

lemma append_extends:
  assumes "tasks w' = tasks w @ nt" "personas w' = personas w @ np" "clients w' = clients w @ nc"
  shows "extends w w'"
  using assms by (simp add: extends_def nth_append)

lemma construct_extends: "extends w (RemoteAcpPersona_init c u m w)"
  using construct_effect [of w c u m]
  by (elim disjE exE conjE) (rule append_extends, simp_all)+

lemma shutdown_extends: "extends w (shutdown i w)"
  by (rule append_extends [where np = "[]" and nc = "[]"]) (simp_all add: shutdown_fields)

lemma run_task_extends: "extends w (run_task t e w)"
proof (cases "t < length (tasks w) \<and> result (tasks w ! t) = None")
  case False
  then show ?thesis by (auto simp: run_task_def extends_refl)
next
  case True
  then have t: "t < length (tasks w)" and pending: "result (tasks w ! t) = None" by auto
  obtain r w1 where rc: "run_coro (coro (tasks w ! t)) e w = (r, w1)"
    by (cases "run_coro (coro (tasks w ! t)) e w")
  have rt: "run_task t e w = (case r of None \<Rightarrow> w1 | Some out \<Rightarrow> set_result t out w1)"
    using True rc by (simp add: run_task_def)
  have fin: "extends w w1 \<Longrightarrow> result (tasks w1 ! t) = None \<Longrightarrow> ?thesis"
    using rt set_result_extends [of w1 t] extends_trans [of w w1]
    by (cases r) auto
  show ?thesis
  proof (cases "coro (tasks w ! t)")
    case (InitClient i)
    then have ic: "init_client i w = (r, w1)" using rc by (simp add: run_coro_def)
    from init_client_effect [OF ic] show ?thesis
    proof (elim disjE conjE exE)
      assume "w1 = w"
      then show ?thesis using fin pending extends_refl by simp
    next
      assume a: "tasks w1 = tasks w @ [\<lparr>coro = InitConnection (length (clients w)), result = None\<rparr>]"
        "clients w1 = clients w @ [\<lparr>c_remote_url = p_remote_url (personas w ! i),
             connection_context = False, aexit_calls = 0, connection_future = length (tasks w)\<rparr>]"
        "personas w1 = personas w"
      have "extends w w1" by (rule append_extends [where np = "[]"]) (simp_all add: a)
      moreover have "result (tasks w1 ! t) = None" using a t pending by (simp add: nth_append)
      ultimately show ?thesis by (rule fin)
    qed
  next
    case (InitClientSession i)
    then have "init_client_session i (new_session e) w = (r, w1)" using rc by (simp add: run_coro_def)
    from frame_init_client_session [OF this] show ?thesis
      using fin frame_extends [of w w1] pending by simp
  next
    case (InitConnection k)
    then have "init_connection k (handshake e) w = (r, w1)" using rc by (simp add: run_coro_def)
    from frame_init_connection [OF this] show ?thesis
      using fin frame_extends [of w w1] pending by simp
  next
    case (ShutdownCoro i)
    then have "shutdown_coro i (conn_close e) (aexit e) w = (r, w1)" using rc by (simp add: run_coro_def)
    from shutdown_coro_effect [OF this] show ?thesis
      using fin frame_extends [of w w1] pending by simp
  qed
qed

lemma set_commands_extends: "extends w (set_acp_slash_commands i cmds w)"
  by (rule frame_extends [OF frame_set_commands]) (simp add: set_acp_slash_commands_def add_log_def)

lemma step_extends: "extends w (step a w)"
  by (cases a) (simp_all add: construct_extends run_task_extends shutdown_extends
      set_commands_extends extends_refl)

lemma run_extends: "extends w (run acts w)"
  unfolding run_def
proof (induction acts arbitrary: w)
  case Nil
  then show ?case by (simp add: extends_refl)
next
  case (Cons a acts)
  show ?case using extends_trans [OF step_extends [of w a] Cons.IH [of "step a w"]] by simp
qed

lemma run_append: "run (xs @ ys) w = run ys (run xs w)"
  by (simp add: run_def)

lemma session_task:
  assumes "wf w" "i < length (personas w)"
  shows "session_init_tasks w i = [client_session_future (personas w ! i)]"
proof -
  let ?s = "client_session_future (personas w ! i)"
  have s: "?s < length (tasks w)" "coro (tasks w ! ?s) = InitClientSession i"
    using wfD(3) [OF assms(1)] assms(2) unfolding personas_ok_def by blast+
  have uniq: "\<forall>u<length (tasks w). coro (tasks w ! u) = InitClientSession i \<longrightarrow> u = ?s"
    using wfD(1) [OF assms(1)] unfolding tasks_ok_def by blast
  show ?thesis unfolding session_init_tasks_def
    by (rule filter_upt_single [OF s(1) s(2) uniq])
qed

lemma await_extends:
  assumes "extends w w'" "await w t = Some r"
  shows "await w' t = Some r"
proof -
  have t: "t < length (tasks w)" "result (tasks w ! t) = Some r"
    using assms(2) by (auto simp: await_def split: if_splits)
  then have "t < length (tasks w')" "result (tasks w' ! t) = Some r"
    using assms(1) unfolding extends_def by auto
  then show ?thesis by (simp add: await_def)
qed

text \<open>
  C5. A persona that exists at some state of a run keeps its session task in every
  later state, and that task is the only session creation ever started for it: nothing
  that happens afterwards (tasks running, \<open>shutdown\<close>, new slash commands, further
  constructions) replaces it or adds a second one. \<open>get_session\<close> and \<open>get_session_id\<close>
  change nothing and await that task, so every call, whoever makes it and whenever,
  waits for the same result, and once a call has got a session or an ID every later call
  gets the same.
\<close>

theorem session_fixed:
  assumes "w1 = run acts1 world0" and "i < length (personas w1)" and "w2 = run acts2 w1"
  shows "client_session_future (personas w2 ! i) = client_session_future (personas w1 ! i)
     \<and> session_init_tasks w2 i = [client_session_future (personas w1 ! i)]
     \<and> get_session w2 i = await w2 (client_session_future (personas w1 ! i))
     \<and> (\<forall>r. get_session w1 i = Some r \<longrightarrow> get_session w2 i = Some r)
     \<and> (\<forall>r. get_session_id w1 i = Some r \<longrightarrow> get_session_id w2 i = Some r)"
proof -
  have "w2 = run (acts1 @ acts2) world0" using assms(1,3) by (simp add: run_append)
  then have wf2: "wf w2" using reachable_wf by simp
  have ext: "extends w1 w2" using assms(3) run_extends by simp
  then have i2: "i < length (personas w2)" using assms(2) by (simp add: extends_def)
  have a: "client_session_future (personas w2 ! i) = client_session_future (personas w1 ! i)"
    using ext assms(2) by (simp add: extends_def)
  have b: "session_init_tasks w2 i = [client_session_future (personas w1 ! i)]"
    using session_task [OF wf2 i2] a by simp
  have c: "get_session w2 i = await w2 (client_session_future (personas w1 ! i))"
    using a by (simp add: get_session_def)
  have d: "\<forall>r. get_session w1 i = Some r \<longrightarrow> get_session w2 i = Some r"
    using await_extends [OF ext] c by (simp add: get_session_def)
  have e: "\<forall>r. get_session_id w1 i = Some r \<longrightarrow> get_session_id w2 i = Some r"
  proof (intro allI impI)
    fix r assume r: "get_session_id w1 i = Some r"
    then obtain x where x: "await w1 (client_session_future (personas w1 ! i)) = Some x"
      by (cases "await w1 (client_session_future (personas w1 ! i))") (simp_all add: get_session_id_def)
    from await_extends [OF ext x] have "await w2 (client_session_future (personas w2 ! i)) = Some x"
      using a by simp
    then show "get_session_id w2 i = Some r" using r x by (simp add: get_session_id_def)
  qed
  show ?thesis using a b c d e by blast
qed

theorem session_fixed_witness:
  "client_session_future (personas world_later ! 0) = 1
   \<and> session_init_tasks world_later 0 = [1]
   \<and> get_session world_bot 0 = Some (Returned (Session ''s1''))
   \<and> get_session world_later 0 = Some (Returned (Session ''s1''))
   \<and> get_session_id world_later 0 = Some (Returned (Str ''s1''))"
proof -
  have r1: "world_bot = run [Construct ExampleRemotePersona ''ws://localhost:8080/ws'' ''bot'',
                    RunTask 0 (env_ok ''s1''), RunTask 1 (env_ok ''s1'')] world0"
    by (simp add: world_bot_def)
  have i: "0 < length (personas world_bot)" by code_simp
  have r2: "world_later = run [Shutdown 0, RunTask 3 (env_ok ''s1''), SetSlashCommands 0 [''help''],
                      Construct ExampleRemotePersona ''ws://localhost:8080/ws'' ''bot'',
                      RunTask 2 (env_ok ''s2'')] world_bot"
    by (simp add: world_later_def)
  note th = session_fixed [OF r1 i r2]
  have s: "client_session_future (personas world_bot ! 0) = 1" by code_simp
  have g: "get_session world_bot 0 = Some (Returned (Session ''s1''))" by code_simp
  have gi: "get_session_id world_bot 0 = Some (Returned (Str ''s1''))" by code_simp
  show ?thesis using th s g gi by auto
qed

section \<open>The endpoint of the example persona\<close>

lemma construct_url:
  "p_remote_url (personas (RemoteAcpPersona_init c u m w) ! length (personas w)) = u"
  using construct_effect [of w c u m] by (elim disjE exE conjE) simp_all

lemma first_client:
  "clients (run_task 0 e (RemoteAcpPersona_init (Subclass n b) u m world0))
     = (if valid_url u
        then [\<lparr>c_remote_url = u, connection_context = False, aexit_calls = 0, connection_future = 2\<rparr>]
        else [])"
  by (simp add: RemoteAcpPersona_init_def world0_def create_task_def run_task_def run_coro_def
      init_client_def RemoteAcpClient_init_def valid_url_def add_log_def set_result_def Let_def)

text \<open>
  C8. \<open>ExampleRemotePersona.__init__\<close> gives the new persona the endpoint
  \<open>ws://localhost:8080/ws\<close> when \<open>ACP_SERVER_URL\<close> is not set, and the value of the
  variable when it is set. When the persona is the first of the process and its client
  task runs, the client is constructed with that endpoint, which is the URL its connection
  task connects to; a value that is not a valid URL is used all the same and makes the
  client initialization fail, so that no client exists.
\<close>

theorem example_endpoint:
  "(environ ''ACP_SERVER_URL'' = None \<longrightarrow>
       p_remote_url (personas (ExampleRemotePersona_init environ m w) ! length (personas w))
         = ''ws://localhost:8080/ws''
     \<and> map c_remote_url (clients (run_task 0 e (ExampleRemotePersona_init environ m world0)))
         = [''ws://localhost:8080/ws''])
   \<and> (\<forall>v. environ ''ACP_SERVER_URL'' = Some v \<longrightarrow>
       p_remote_url (personas (ExampleRemotePersona_init environ m w) ! length (personas w)) = v
     \<and> (valid_url v \<longrightarrow>
           map c_remote_url (clients (run_task 0 e (ExampleRemotePersona_init environ m world0))) = [v])
     \<and> (\<not> valid_url v \<longrightarrow>
           clients (run_task 0 e (ExampleRemotePersona_init environ m world0)) = []))"
proof -
  have d: "valid_url ''ws://localhost:8080/ws''"
    by (simp add: valid_url_def strip_def lstrip_def rstrip_def isspace_def)
  show ?thesis
    using d by (simp add: ExampleRemotePersona_init_def ExampleRemotePersona_def environ_get_def
        construct_url first_client)
qed

theorem example_endpoint_witness:
  "p_remote_url (personas (ExampleRemotePersona_init Map.empty ''bot'' world0) ! 0)
      = ''ws://localhost:8080/ws''
   \<and> map c_remote_url (clients (run_task 0 (env_ok ''s1'')
          (ExampleRemotePersona_init Map.empty ''bot'' world0))) = [''ws://localhost:8080/ws'']
   \<and> p_remote_url (personas (ExampleRemotePersona_init
          [''ACP_SERVER_URL'' \<mapsto> ''wss://agent.example/acp''] ''bot'' world0) ! 0)
      = ''wss://agent.example/acp''
   \<and> map c_remote_url (clients (run_task 0 (env_ok ''s1'')
          (ExampleRemotePersona_init [''ACP_SERVER_URL'' \<mapsto> ''wss://agent.example/acp''] ''bot'' world0)))
      = [''wss://agent.example/acp'']"
proof -
  have v: "valid_url ''wss://agent.example/acp''"
    by (simp add: valid_url_def strip_def lstrip_def rstrip_def isspace_def)
  have l: "length (personas world0) = 0" by (simp add: world0_def)
  show ?thesis
    using example_endpoint [of Map.empty "''bot''" world0 "env_ok ''s1''"]
      example_endpoint [of "[''ACP_SERVER_URL'' \<mapsto> ''wss://agent.example/acp'']" "''bot''" world0
        "env_ok ''s1''"] v l
    by simp
qed

section \<open>Closing the client\<close>

text \<open>
  C6, as the specification states it, fails. Right after the client is constructed its
  connection task is pending and \<open>_connection_context\<close> is still \<open>None\<close>; \<open>close\<close>
  called then returns at once: it neither waits for the connection nor closes anything,
  and the connection task opens the transport afterwards.
\<close>

theorem close_before_start_returns_at_once:
  "await world_fresh (connection_future (clients world_fresh ! 0)) = None
   \<and> RemoteAcpClient_close 0 None world_fresh = (Some (Returned PyNone), world_fresh)
   \<and> aexit_calls (clients world_fresh ! 0) = 0
   \<and> connection_context (clients (run [RunTask 2 (env_ok ''s1'')] world_fresh) ! 0)"
proof -
  have a: "await world_fresh (connection_future (clients world_fresh ! 0)) = None" by code_simp
  have c: "\<not> connection_context (clients world_fresh ! 0)" by code_simp
  have x: "aexit_calls (clients world_fresh ! 0) = 0" by code_simp
  have s: "connection_context (clients (run [RunTask 2 (env_ok ''s1'')] world_fresh) ! 0)"
    by code_simp
  have "RemoteAcpClient_close 0 None world_fresh = (Some (Returned PyNone), world_fresh)"
    using c by (simp add: RemoteAcpClient_close_def)
  then show ?thesis using a x s by simp
qed

text \<open>
  C6, amended. When \<open>close\<close> is called while \<open>_connection_context\<close> is set, that is
  once \<open>_init_connection\<close> has started, the handshake in flight included, it first
  awaits the connection task: while that task is pending \<open>close\<close> stays suspended and
  has done nothing, it completes only when the task is done, and it calls \<open>__aexit__\<close>
  on the transport only after the task has returned a connection.
\<close>

theorem close_waits_once_started:
  assumes "connection_context (clients w ! k)"
  shows "(await w (connection_future (clients w ! k)) = None
            \<longrightarrow> RemoteAcpClient_close k ax w = (None, w))
     \<and> (\<forall>r w'. RemoteAcpClient_close k ax w = (r, w') \<longrightarrow> r \<noteq> None
            \<longrightarrow> await w (connection_future (clients w ! k)) \<noteq> None)
     \<and> (\<forall>r w'. RemoteAcpClient_close k ax w = (r, w')
            \<longrightarrow> aexit_calls (clients w' ! k) \<noteq> aexit_calls (clients w ! k)
            \<longrightarrow> (\<exists>conn. await w (connection_future (clients w ! k)) = Some (Returned conn)))"
proof -
  have a: "await w (connection_future (clients w ! k)) = None
            \<Longrightarrow> RemoteAcpClient_close k ax w = (None, w)"
    using assms by (simp add: RemoteAcpClient_close_def)
  have b: "RemoteAcpClient_close k ax w = (r, w') \<Longrightarrow> r \<noteq> None
            \<Longrightarrow> await w (connection_future (clients w ! k)) \<noteq> None" for r w'
    using a by auto
  have c: "RemoteAcpClient_close k ax w = (r, w')
            \<Longrightarrow> aexit_calls (clients w' ! k) \<noteq> aexit_calls (clients w ! k)
            \<Longrightarrow> \<exists>conn. await w (connection_future (clients w ! k)) = Some (Returned conn)" for r w'
  proof (cases "await w (connection_future (clients w ! k))")
    case None
    assume "RemoteAcpClient_close k ax w = (r, w')"
      "aexit_calls (clients w' ! k) \<noteq> aexit_calls (clients w ! k)"
    then show ?thesis using a [OF None] by simp
  next
    case (Some out)
    assume cl: "RemoteAcpClient_close k ax w = (r, w')"
      and ch: "aexit_calls (clients w' ! k) \<noteq> aexit_calls (clients w ! k)"
    show ?thesis
    proof (cases out)
      case (Returned conn)
      then show ?thesis using Some by simp
    next
      case (Raised ex)
      then have "RemoteAcpClient_close k ax w = (if isinstance ex Exception
               then (Some (Returned PyNone), add_log (CloseError ex) w)
               else (Some (Raised ex), w))"
        using assms Some by (simp add: RemoteAcpClient_close_def)
      then have "clients w' = clients w"
        using cl by (cases "isinstance ex Exception") (auto simp: add_log_def)
      then show ?thesis using ch by simp
    qed
  qed
  show ?thesis using a b c by blast
qed

theorem close_waits_once_started_witness:
  "connection_context (clients world_inflight ! 0)
   \<and> await world_inflight (connection_future (clients world_inflight ! 0)) = None
   \<and> RemoteAcpClient_close 0 None world_inflight = (None, world_inflight)"
proof -
  have c: "connection_context (clients world_inflight ! 0)" by code_simp
  have a: "await world_inflight (connection_future (clients world_inflight ! 0)) = None" by code_simp
  show ?thesis using close_waits_once_started [OF c, of None] c a by simp
qed

section \<open>Shutdown\<close>

text \<open>
  C3 on a live connection whose \<open>conn.close()\<close> raises a \<open>RuntimeError\<close>: the task
  of \<open>_shutdown\<close> ends with that exception. No error line is logged, the line that
  reports the completed shutdown is not reached, and \<open>client.close()\<close> is not called,
  so the transport context, which is set, is never left. The same exception raised by
  \<open>__aexit__\<close> inside \<open>client.close()\<close> is logged and suppressed, and the shutdown
  completes.
\<close>

theorem shutdown_conn_close_error_not_handled:
  "result (tasks world_live ! 2) = Some (Returned (ConnRef 0))
   \<and> result (tasks world_boom ! 3) = Some (Raised (Exc RuntimeError ''boom''))
   \<and> filter is_error (log world_boom) = []
   \<and> CompletedClosing ''ExampleRemotePersona'' \<notin> set (log world_boom)
   \<and> connection_context (clients world_boom ! 0)
   \<and> aexit_calls (clients world_boom ! 0) = 0
   \<and> result (tasks world_aexit ! 3) = Some (Returned PyNone)
   \<and> filter is_error (log world_aexit) = [CloseError (Exc RuntimeError ''boom'')]
   \<and> last (log world_aexit) = CompletedClosing ''ExampleRemotePersona''
   \<and> aexit_calls (clients world_aexit ! 0) = 1"
  by code_simp

end
